theory Spec2Isabelle
  imports Complex_Main "HOL-Library.Sublist"
begin

text \<open>
  The repository is one module, \<open>main.py\<close>: two tool functions that query a literature
  API and an adverse-event API over HTTP and turn the answer into a string, and an
  endpoint that hands a question to an agent executor bound to those tools. The
  functions are embedded as HOL functions; the HTTP layer, the agent executor, the
  environment and the interpreter's \<open>str\<close> are parameters, so every statement below
  holds for all of their behaviours.
\<close>

section \<open>Python values and the primitives the module uses\<close>

text \<open>
  \<open>response.json()\<close> hands the module an untyped value: the tool functions call
  \<open>.get\<close>, \<open>len\<close>, \<open>in\<close>, indexing, truthiness and \<open>str.join\<close> on whatever the
  remote side sent. The value type therefore has every shape a decoded JSON document
  can have, and each primitive raises where CPython raises.
  A float is kept by its exact value when finite; the infinities and NaN (which the
  decoder also accepts) are one constructor, since the module only ever asks a float
  whether it is zero. A string is a list of characters, and iterating over it gives
  one-character strings. A dict is the list of its items in insertion order; the keys
  of a decoded document are strings and pairwise different, and a lookup takes the
  first item with the key.
\<close>

datatype py_float = Finite rat | NonFinite

datatype py_value =
    PNone
  | PBool bool
  | PInt int
  | PFloat py_float
  | PStr string
  | PList "py_value list"
  | PDict "(string \<times> py_value) list"

text \<open>
  Exceptions raised by the interpreter itself, named by what went wrong. All of them are
  instances of \<open>Exception\<close> (\<open>AttributeError\<close>, \<open>TypeError\<close>, \<open>KeyError\<close>,
  \<open>IndexError\<close>).
\<close>

datatype py_fault =
    NoAttribute py_value string
  | Unhashable py_value
  | NotIterable py_value
  | JoinItem nat py_value
  | NotContainer py_value
  | BadSubscript py_value py_value
  | NoLen py_value
  | MissingKey py_value
  | IndexOutOfRange py_value

text \<open>
  An exception object, as far as the module looks at it: an instance of \<open>Exception\<close>,
  either raised by a library (the HTTP client, the JSON decoder, the agent executor) and
  carrying its \<open>str(e)\<close>, or raised by the interpreter. Process-level signals
  (\<open>KeyboardInterrupt\<close>, \<open>SystemExit\<close>) derive from \<open>BaseException\<close> only, are not
  raised by any of those libraries and are not values of this type.
\<close>

datatype py_exn = Raised string | Fault py_fault

text \<open>
  What the interpreter contributes to the text of a result: \<open>str(v)\<close> for a value that
  is not a string (inside an f-string) and the message of an interpreter exception.
\<close>

record runtime =
  str_value :: "py_value \<Rightarrow> string"
  str_fault :: "py_fault \<Rightarrow> string"

definition str_exn :: "runtime \<Rightarrow> py_exn \<Rightarrow> string" where
  "str_exn rt e = (case e of Raised s \<Rightarrow> s | Fault f \<Rightarrow> str_fault rt f)"

definition fmt :: "runtime \<Rightarrow> py_value \<Rightarrow> string" where
  "fmt rt v = (case v of PStr s \<Rightarrow> s | _ \<Rightarrow> str_value rt v)"

text \<open>Sequencing of computations that may raise.\<close>

definition and_then :: "'e + 'a \<Rightarrow> ('a \<Rightarrow> 'e + 'b) \<Rightarrow> 'e + 'b" where
  "and_then m f = (case m of Inl e \<Rightarrow> Inl e | Inr x \<Rightarrow> f x)"

definition interp :: "py_fault + 'a \<Rightarrow> py_exn + 'a" where
  "interp m = (case m of Inl f \<Rightarrow> Inl (Fault f) | Inr x \<Rightarrow> Inr x)"

text \<open>\<open>str(n)\<close> for an integer.\<close>

definition digit_char :: "nat \<Rightarrow> char" where
  "digit_char d = ''0123456789'' ! d"

fun str_nat :: "nat \<Rightarrow> string" where
  "str_nat n = (if n < 10 then [digit_char n] else str_nat (n div 10) @ [digit_char (n mod 10)])"

declare str_nat.simps [simp del]

definition str_int :: "int \<Rightarrow> string" where
  "str_int i = (if i < 0 then CHR ''-'' # str_nat (nat (- i)) else str_nat (nat i))"

text \<open>
  Reading a decimal numeral back, most significant digit first: what the text of
  \<open>str(n)\<close> denotes.
\<close>

definition digit_value :: "char \<Rightarrow> nat" where
  "digit_value c = of_char c - of_char CHR ''0''"

definition decimal :: "string \<Rightarrow> nat" where
  "decimal s = foldl (\<lambda>a c. 10 * a + digit_value c) 0 s"

text \<open>\<open>bool(v)\<close>, as \<open>if v:\<close> and \<open>not v\<close> use it.\<close>

fun truthy :: "py_value \<Rightarrow> bool" where
  "truthy PNone = False"
| "truthy (PBool b) = b"
| "truthy (PInt i) = (i \<noteq> 0)"
| "truthy (PFloat (Finite q)) = (q \<noteq> 0)"
| "truthy (PFloat NonFinite) = True"
| "truthy (PStr s) = (s \<noteq> [])"
| "truthy (PList xs) = (xs \<noteq> [])"
| "truthy (PDict kvs) = (kvs \<noteq> [])"

text \<open>
  \<open>d.get(key, default)\<close>. Only a dict has the attribute; a list or dict key is
  unhashable; any other key that is not a string equals no key of a decoded JSON object.
\<close>

fun py_dict_get :: "py_value \<Rightarrow> py_value \<Rightarrow> py_value \<Rightarrow> py_fault + py_value" where
  "py_dict_get (PDict kvs) (PStr k) d = Inr (case map_of kvs k of None \<Rightarrow> d | Some v \<Rightarrow> v)"
| "py_dict_get (PDict kvs) (PList xs) d = Inl (Unhashable (PList xs))"
| "py_dict_get (PDict kvs) (PDict xs) d = Inl (Unhashable (PDict xs))"
| "py_dict_get (PDict kvs) key d = Inr d"
| "py_dict_get v key d = Inl (NoAttribute v ''get'')"

definition py_get :: "py_value \<Rightarrow> string \<Rightarrow> py_value \<Rightarrow> py_fault + py_value" where
  "py_get v k d = py_dict_get v (PStr k) d"

text \<open>Iteration: a list gives its items, a string its characters, a dict its keys.\<close>

fun py_iter :: "py_value \<Rightarrow> py_fault + py_value list" where
  "py_iter (PList xs) = Inr xs"
| "py_iter (PStr s) = Inr (map (\<lambda>c. PStr [c]) s)"
| "py_iter (PDict kvs) = Inr (map (\<lambda>kv. PStr (fst kv)) kvs)"
| "py_iter v = Inl (NotIterable v)"

text \<open>\<open>sep.join(v)\<close>: every item must be a string.\<close>

fun str_items :: "nat \<Rightarrow> py_value list \<Rightarrow> py_fault + string list" where
  "str_items n [] = Inr []"
| "str_items n (PStr s # vs) = and_then (str_items (Suc n) vs) (\<lambda>ss. Inr (s # ss))"
| "str_items n (v # vs) = Inl (JoinItem n v)"

fun join :: "string \<Rightarrow> string list \<Rightarrow> string" where
  "join sep [] = []"
| "join sep [s] = s"
| "join sep (s # t # ss) = s @ sep @ join sep (t # ss)"

definition py_join :: "string \<Rightarrow> py_value \<Rightarrow> py_fault + string" where
  "py_join sep v =
     and_then (py_iter v) (\<lambda>items.
     and_then (str_items 0 items) (\<lambda>ss. Inr (join sep ss)))"

text \<open>\<open>'key' in v\<close>: key of a dict, item of a list, substring of a string.\<close>

fun py_contains :: "string \<Rightarrow> py_value \<Rightarrow> py_fault + bool" where
  "py_contains k (PDict kvs) = Inr (k \<in> fst ` set kvs)"
| "py_contains k (PList xs) = Inr (PStr k \<in> set xs)"
| "py_contains k (PStr s) = Inr (sublist k s)"
| "py_contains k v = Inl (NotContainer v)"

text \<open>\<open>v['key']\<close> with a string key.\<close>

fun py_subscript :: "py_value \<Rightarrow> string \<Rightarrow> py_fault + py_value" where
  "py_subscript (PDict kvs) k =
     (case map_of kvs k of None \<Rightarrow> Inl (MissingKey (PStr k)) | Some v \<Rightarrow> Inr v)"
| "py_subscript v k = Inl (BadSubscript v (PStr k))"

text \<open>\<open>len(v)\<close>.\<close>

fun py_len :: "py_value \<Rightarrow> py_fault + nat" where
  "py_len (PList xs) = Inr (length xs)"
| "py_len (PStr s) = Inr (length s)"
| "py_len (PDict kvs) = Inr (length kvs)"
| "py_len v = Inl (NoLen v)"

text \<open>
  \<open>v[0]\<close>. A decoded JSON object has string keys only, so \<open>0\<close> is never one of
  them.
\<close>

fun py_first :: "py_value \<Rightarrow> py_fault + py_value" where
  "py_first (PList []) = Inl (IndexOutOfRange (PList []))"
| "py_first (PList (x # xs)) = Inr x"
| "py_first (PStr []) = Inl (IndexOutOfRange (PStr []))"
| "py_first (PStr (c # s)) = Inr (PStr [c])"
| "py_first (PDict kvs) = Inl (MissingKey (PInt 0))"
| "py_first v = Inl (BadSubscript v (PInt 0))"

section \<open>Configuration and the HTTP layer\<close>

text \<open>
  The module-level keys, read once with \<open>os.getenv\<close>: \<open>None\<close> when the variable is
  not set.
\<close>

record config =
  PUBMED_API_KEY :: "string option"
  FDA_API_KEY :: "string option"

text \<open>
  The values the module puts into a \<open>params\<close> dict: a string, an integer, or \<open>None\<close>
  (a key that is not set).
\<close>

datatype param = NoneParam | StrParam string | IntParam int

definition env_value :: "string option \<Rightarrow> param" where
  "env_value k = (case k of None \<Rightarrow> NoneParam | Some s \<Rightarrow> StrParam s)"

text \<open>
  The arguments of one \<open>requests.get\<close> call: the URL and the \<open>params\<close> dict, if one
  is passed. The answer is an exception or a response, of which the module reads the
  status code and calls \<open>.json()\<close>, which itself returns a value or raises.
\<close>

record request =
  url :: string
  params :: "(string \<times> param) list option"

text \<open>
  What the HTTP client sends for a call, as far as query parameters go. The entries of
  \<open>params\<close> are sent in order, an integer as its decimal text; an entry whose value is
  \<open>None\<close> is left out. The URL is taken as given: its fragment (from the first
  \<open>#\<close>) is not sent, its query string starts after the first \<open>?\<close>, items are
  separated by \<open>&\<close>, and an item is a name and a value separated by its first \<open>=\<close>.
  Parameters of the URL come first, those of \<open>params\<close> are appended.
\<close>

fun sent_params :: "(string \<times> param) list \<Rightarrow> (string \<times> string) list" where
  "sent_params [] = []"
| "sent_params ((k, NoneParam) # ps) = sent_params ps"
| "sent_params ((k, StrParam v) # ps) = (k, v) # sent_params ps"
| "sent_params ((k, IntParam i) # ps) = (k, str_int i) # sent_params ps"

fun split_all :: "char \<Rightarrow> string \<Rightarrow> string list" where
  "split_all c [] = [[]]"
| "split_all c (x # xs) =
     (if x = c then [] # split_all c xs
      else (case split_all c xs of [] \<Rightarrow> [[x]] | piece # pieces \<Rightarrow> (x # piece) # pieces))"

definition url_query :: "string \<Rightarrow> string" where
  "url_query u = drop 1 (dropWhile (\<lambda>x. x \<noteq> CHR ''?'') (takeWhile (\<lambda>x. x \<noteq> CHR ''#'') u))"

definition query_item :: "string \<Rightarrow> string \<times> string" where
  "query_item item =
     (takeWhile (\<lambda>x. x \<noteq> CHR ''='') item, drop 1 (dropWhile (\<lambda>x. x \<noteq> CHR ''='') item))"

definition query_pairs :: "string \<Rightarrow> (string \<times> string) list" where
  "query_pairs q = map query_item (filter (\<lambda>item. item \<noteq> []) (split_all CHR ''&'' q))"

definition outbound_query :: "request \<Rightarrow> (string \<times> string) list" where
  "outbound_query req =
     query_pairs (url_query (url req))
     @ (case params req of None \<Rightarrow> [] | Some ps \<Rightarrow> sent_params ps)"

record http_response =
  status_code :: int
  json_body :: "py_exn + py_value"

text \<open>
  The HTTP layer is a parameter: any function from a request to its outcome. One
  invocation of a tool issues at most two requests, to different URLs, so a function of
  the request can answer them independently.
\<close>

type_synonym http_layer = "request \<Rightarrow> py_exn + http_response"

section \<open>The literature lookup: \<open>fetch_pubmed_articles\<close>\<close>

definition PUBMED_API_URL :: string where
  "PUBMED_API_URL = ''https://eutils.ncbi.nlm.nih.gov/entrez/eutils/esearch.fcgi''"

definition PUBMED_SUMMARY_API_URL :: string where
  "PUBMED_SUMMARY_API_URL = ''https://eutils.ncbi.nlm.nih.gov/entrez/eutils/esummary.fcgi''"

definition search_params :: "config \<Rightarrow> string \<Rightarrow> (string \<times> param) list" where
  "search_params cfg search_term =
     [(''db'', StrParam ''pubmed''),
      (''term'', StrParam search_term),
      (''retmax'', IntParam 5),
      (''retmode'', StrParam ''json''),
      (''api_key'', env_value (PUBMED_API_KEY cfg))]"

definition search_request :: "config \<Rightarrow> string \<Rightarrow> request" where
  "search_request cfg search_term =
     \<lparr>url = PUBMED_API_URL, params = Some (search_params cfg search_term)\<rparr>"

definition summary_params :: "config \<Rightarrow> string \<Rightarrow> (string \<times> param) list" where
  "summary_params cfg ids =
     [(''db'', StrParam ''pubmed''),
      (''id'', StrParam ids),
      (''retmode'', StrParam ''json''),
      (''api_key'', env_value (PUBMED_API_KEY cfg))]"

definition summary_request :: "config \<Rightarrow> string \<Rightarrow> request" where
  "summary_request cfg ids =
     \<lparr>url = PUBMED_SUMMARY_API_URL, params = Some (summary_params cfg ids)\<rparr>"

text \<open>\<open>data.get("esearchresult", {}).get("idlist", [])\<close>\<close>

definition id_list_of :: "py_value \<Rightarrow> py_fault + py_value" where
  "id_list_of data =
     and_then (py_get data ''esearchresult'' (PDict [])) (\<lambda>r. py_get r ''idlist'' (PList []))"

text \<open>The body of the \<open>for article_id in id_list\<close> loop: one formatted record.\<close>

definition detailed_response :: "runtime \<Rightarrow> py_value \<Rightarrow> py_value \<Rightarrow> py_fault + string" where
  "detailed_response rt articles article_id =
     and_then (py_dict_get articles article_id (PDict [])) (\<lambda>article.
     and_then (py_get article ''title'' (PStr ''No title available'')) (\<lambda>title.
     and_then (py_get article ''pubdate'' (PStr ''No publication date available'')) (\<lambda>pub_year.
       Inr (''Title: '' @ fmt rt title @ '', Published: '' @ fmt rt pub_year))))"

text \<open>The loop: records are appended in iteration order; the first raise ends it.\<close>

fun detailed_responses :: "runtime \<Rightarrow> py_value \<Rightarrow> py_value list \<Rightarrow> py_fault + string list" where
  "detailed_responses rt articles [] = Inr []"
| "detailed_responses rt articles (article_id # rest) =
     and_then (detailed_response rt articles article_id) (\<lambda>line.
     and_then (detailed_responses rt articles rest) (\<lambda>lines. Inr (line # lines)))"

text \<open>Lines 60 to 68: from the summary response's JSON to the joined records.\<close>

definition format_summaries :: "runtime \<Rightarrow> py_value \<Rightarrow> http_response \<Rightarrow> py_exn + string" where
  "format_summaries rt id_list summary_response =
     and_then (json_body summary_response) (\<lambda>summary_data.
     interp (
       and_then (py_get summary_data ''result'' (PDict [])) (\<lambda>articles.
       and_then (py_iter id_list) (\<lambda>items.
       and_then (detailed_responses rt articles items) (\<lambda>lines.
         Inr (join '' | '' lines))))))"

text \<open>Lines 59 to 70: what is done with the summary response.\<close>

definition summarise :: "runtime \<Rightarrow> py_value \<Rightarrow> http_response \<Rightarrow> py_exn + string" where
  "summarise rt id_list summary_response =
     (if status_code summary_response = 200 then format_summaries rt id_list summary_response
      else Inr (''Error: Unable to fetch article summaries. Status code ''
                @ str_int (status_code summary_response) @ ''.''))"

text \<open>
  The body of the \<open>try\<close> block, with the requests it has issued so far. The second
  component is the list of \<open>requests.get\<close> calls in the order they were made.
\<close>

definition pubmed_try ::
  "config \<Rightarrow> runtime \<Rightarrow> http_layer \<Rightarrow> string \<Rightarrow> (py_exn + string) \<times> request list" where
  "pubmed_try cfg rt net search_term =
     (let req = search_request cfg search_term in
      case net req of
        Inl e \<Rightarrow> (Inl e, [req])
      | Inr response \<Rightarrow>
          if status_code response = 200 then
            (case and_then (json_body response) (\<lambda>data. interp (id_list_of data)) of
               Inl e \<Rightarrow> (Inl e, [req])
             | Inr id_list \<Rightarrow>
                 if \<not> truthy id_list then (Inr ''No articles found for this search term.'', [req])
                 else
                   (case interp (py_join '','' id_list) of
                      Inl e \<Rightarrow> (Inl e, [req])
                    | Inr ids \<Rightarrow>
                        (let sreq = summary_request cfg ids in
                         case net sreq of
                           Inl e \<Rightarrow> (Inl e, [req, sreq])
                         | Inr summary_response \<Rightarrow>
                             (summarise rt id_list summary_response, [req, sreq]))))
          else
            (Inr (''Error: Unable to fetch PubMed articles. Status code ''
                  @ str_int (status_code response) @ ''.''),
             [req]))"

text \<open>
  The function: \<open>except Exception as e\<close> turns whatever the body raised into the
  returned string. \<open>Inl\<close> in the result would be an exception reaching the caller.
\<close>

definition fetch_pubmed_articles ::
  "config \<Rightarrow> runtime \<Rightarrow> http_layer \<Rightarrow> string \<Rightarrow> (py_exn + string) \<times> request list" where
  "fetch_pubmed_articles cfg rt net search_term =
     (case pubmed_try cfg rt net search_term of
        (Inl e, calls) \<Rightarrow> (Inr (''Error fetching PubMed articles: '' @ str_exn rt e), calls)
      | (Inr s, calls) \<Rightarrow> (Inr s, calls))"

section \<open>The adverse-event lookup: \<open>fetch_drug_side_effects\<close>\<close>

definition FDA_API_URL :: "string \<Rightarrow> string" where
  "FDA_API_URL drug_name =
     ''https://api.fda.gov/drug/event.json?search=patient.drug.medicinalproduct:''
     @ drug_name @ ''&limit=1''"

text \<open>\<open>'results' in data and len(data['results']) > 0\<close>, with its short circuit.\<close>

definition has_results :: "py_value \<Rightarrow> py_fault + bool" where
  "has_results data =
     and_then (py_contains ''results'' data) (\<lambda>present.
       if present then
         and_then (py_subscript data ''results'') (\<lambda>results.
         and_then (py_len results) (\<lambda>n. Inr (n > 0)))
       else Inr False)"

text \<open>\<open>data['results'][0].get('patient', {}).get('reaction', [])\<close>\<close>

definition side_effects_of :: "py_value \<Rightarrow> py_fault + py_value" where
  "side_effects_of data =
     and_then (py_subscript data ''results'') (\<lambda>results.
     and_then (py_first results) (\<lambda>first.
     and_then (py_get first ''patient'' (PDict [])) (\<lambda>patient.
       py_get patient ''reaction'' (PList []))))"

text \<open>The list comprehension over the reactions.\<close>

fun side_effect_descriptions :: "py_value list \<Rightarrow> py_fault + py_value list" where
  "side_effect_descriptions [] = Inr []"
| "side_effect_descriptions (reaction # rest) =
     and_then (py_get reaction ''reactionmeddrapt'' (PStr ''No description'')) (\<lambda>d.
     and_then (side_effect_descriptions rest) (\<lambda>ds. Inr (d # ds)))"

text \<open>Lines 85 to 95: from the decoded body to the returned string.\<close>

definition describe_events :: "py_value \<Rightarrow> py_fault + string" where
  "describe_events data =
     and_then (has_results data) (\<lambda>found.
       if found then
         and_then (side_effects_of data) (\<lambda>side_effects.
           if truthy side_effects then
             and_then (py_iter side_effects) (\<lambda>reactions.
             and_then (side_effect_descriptions reactions) (\<lambda>ds.
               py_join '', '' (PList ds)))
           else Inr ''No side effects listed for this drug.'')
       else Inr ''No information available for this drug.'')"

definition fda_request :: "string \<Rightarrow> request" where
  "fda_request drug_name = \<lparr>url = FDA_API_URL drug_name, params = None\<rparr>"

definition fda_try :: "http_layer \<Rightarrow> string \<Rightarrow> (py_exn + string) \<times> request list" where
  "fda_try net drug_name =
     (let req = fda_request drug_name in
      case net req of
        Inl e \<Rightarrow> (Inl e, [req])
      | Inr response \<Rightarrow>
          if status_code response = 200 then
            (and_then (json_body response) (\<lambda>data. interp (describe_events data)), [req])
          else
            (Inr (''Error: '' @ str_int (status_code response)
                  @ '' - Unable to fetch data from FDA API''),
             [req]))"

text \<open>
  The configuration is an argument because the function can read the module's globals;
  its body names neither key.
\<close>

definition fetch_drug_side_effects ::
  "config \<Rightarrow> runtime \<Rightarrow> http_layer \<Rightarrow> string \<Rightarrow> (py_exn + string) \<times> request list" where
  "fetch_drug_side_effects cfg rt net drug_name =
     (case fda_try net drug_name of
        (Inl e, calls) \<Rightarrow> (Inr (''Error fetching drug information: '' @ str_exn rt e), calls)
      | (Inr s, calls) \<Rightarrow> (Inr s, calls))"

section \<open>The endpoint: \<open>ask_question\<close>\<close>










section \<open>The specification's vocabulary\<close>

text \<open>
  The record the specification describes for one identifier: the title and the
  publication date found under that identifier in the summary result map, each replaced
  by its placeholder when missing, in the format \<open>Title: {t}, Published: {p}\<close>.
\<close>

definition field_or :: "runtime \<Rightarrow> (string \<times> py_value) list \<Rightarrow> string \<Rightarrow> string \<Rightarrow> string" where
  "field_or rt fs k placeholder =
     (case map_of fs k of None \<Rightarrow> placeholder | Some v \<Rightarrow> fmt rt v)"

definition fields_of :: "(string \<times> py_value) list \<Rightarrow> string \<Rightarrow> (string \<times> py_value) list" where
  "fields_of articles i = (case map_of articles i of Some (PDict fs) \<Rightarrow> fs | _ \<Rightarrow> [])"

definition spec_record :: "runtime \<Rightarrow> (string \<times> py_value) list \<Rightarrow> string \<Rightarrow> string" where
  "spec_record rt articles i =
     ''Title: '' @ field_or rt (fields_of articles i) ''title'' ''No title available''
     @ '', Published: ''
     @ field_or rt (fields_of articles i) ''pubdate'' ''No publication date available''"

text \<open>An identifier's entry in the summary result map, when there is one, is an object.\<close>

definition is_summary :: "(string \<times> py_value) list \<Rightarrow> string \<Rightarrow> bool" where
  "is_summary articles i =
     (case map_of articles i of None \<Rightarrow> True | Some (PDict fs) \<Rightarrow> True | Some _ \<Rightarrow> False)"

text \<open>
  A reaction entry is an object; its description, when it has one, is text. The
  description the specification gives it is that text, or \<open>No description\<close>.
\<close>

definition is_reaction :: "(string \<times> py_value) list \<Rightarrow> bool" where
  "is_reaction fs =
     (case map_of fs ''reactionmeddrapt'' of
        None \<Rightarrow> True | Some (PStr s) \<Rightarrow> True | Some _ \<Rightarrow> False)"

definition spec_description :: "(string \<times> py_value) list \<Rightarrow> string" where
  "spec_description fs =
     (case map_of fs ''reactionmeddrapt'' of Some (PStr s) \<Rightarrow> s | _ \<Rightarrow> ''No description'')"

section \<open>Mocked collaborators of the scenarios\<close>

definition json_response :: "int \<Rightarrow> py_value \<Rightarrow> http_response" where
  "json_response code v = \<lparr>status_code = code, json_body = Inr v\<rparr>"

text \<open>A literature API that answers the search URL one way and any other URL another.\<close>

definition mock_literature ::
  "(py_exn + http_response) \<Rightarrow> (py_exn + http_response) \<Rightarrow> http_layer" where
  "mock_literature search_answer summary_answer req =
     (if url req = PUBMED_API_URL then search_answer else summary_answer)"

definition search_result :: "string list \<Rightarrow> py_value" where
  "search_result ids = PDict [(''esearchresult'', PDict [(''idlist'', PList (map PStr ids))])]"

definition article :: "string \<Rightarrow> string \<Rightarrow> py_value" where
  "article t p = PDict [(''title'', PStr t), (''pubdate'', PStr p)]"

text \<open>The mocked API of the specification's literature scenario.\<close>

definition scenario_literature :: http_layer where
  "scenario_literature =
     mock_literature
       (Inr (json_response 200 (search_result [''1'', ''2''])))
       (Inr (json_response 200
          (PDict [(''result'', PDict [(''1'', article ''A'' ''2020''), (''2'', article ''B'' ''2021'')])])))"

text \<open>An HTTP layer on which every request raises, and responses without a usable body.\<close>

definition failing :: "string \<Rightarrow> http_layer" where
  "failing msg req = Inl (Raised msg)"

definition undecodable :: "int \<Rightarrow> string \<Rightarrow> http_response" where
  "undecodable code msg = \<lparr>status_code = code, json_body = Inl (Raised msg)\<rparr>"

text \<open>A literature API whose search finds one identifier and whose summary step is given.\<close>

definition one_hit :: "(py_exn + http_response) \<Rightarrow> http_layer" where
  "one_hit summary_answer =
     mock_literature (Inr (json_response 200 (search_result [''7'']))) summary_answer"

text \<open>
  A literature API that finds two identifiers and knows a summary for the first only,
  without a publication date.
\<close>

definition partial_summaries :: "(string \<times> py_value) list" where
  "partial_summaries = [(''1'', PDict [(''title'', PStr ''A'')])]"

definition partial_literature :: http_layer where
  "partial_literature =
     mock_literature
       (Inr (json_response 200 (search_result [''1'', ''2''])))
       (Inr (json_response 200 (PDict [(''result'', PDict partial_summaries)])))"

text \<open>
  An adverse-event API that answers every request with status 200 and a given body; a
  body with one result that lists the given reactions; three reactions, the second
  without a description.
\<close>

definition sample_reactions :: "(string \<times> py_value) list list" where
  "sample_reactions =
     [[(''reactionmeddrapt'', PStr ''NAUSEA'')], [], [(''reactionmeddrapt'', PStr ''RASH'')]]"

definition answering :: "py_value \<Rightarrow> http_layer" where
  "answering v req = Inr (json_response 200 v)"

definition event_body :: "py_value list \<Rightarrow> (string \<times> py_value) list" where
  "event_body reactions =
     [(''results'', PList [PDict [(''patient'', PDict [(''reaction'', PList reactions)])]])]"

definition plain_runtime :: runtime where
  "plain_runtime = \<lparr>str_value = (\<lambda>v. ''?''), str_fault = (\<lambda>f. ''fault'')\<rparr>"

definition no_keys :: config where
  "no_keys = \<lparr>PUBMED_API_KEY = None, FDA_API_KEY = None\<rparr>"

definition some_keys :: config where
  "some_keys = \<lparr>PUBMED_API_KEY = Some ''ncbi'', FDA_API_KEY = Some ''fda''\<rparr>"

section \<open>Basic facts\<close>

lemma and_then_Inr [simp]: "and_then (Inr x) f = f x"
  by (simp add: and_then_def)

lemma and_then_Inl [simp]: "and_then (Inl e) f = Inl e"
  by (simp add: and_then_def)

lemma interp_Inr [simp]: "interp (Inr x) = Inr x"
  by (simp add: interp_def)

lemma interp_Inl [simp]: "interp (Inl f) = Inl (Fault f)"
  by (simp add: interp_def)

subsection \<open>The decimal text of an integer\<close>

lemma digit_value_digit_char: "d < 10 \<Longrightarrow> digit_value (digit_char d) = d"
proof -
  assume "d < 10"
  then have "d \<in> {0, 1, 2, 3, 4, 5, 6, 7, 8, 9}" by auto
  then show ?thesis
    by (elim insertE) (simp_all add: digit_char_def digit_value_def)
qed

lemma decimal_snoc: "decimal (s @ [c]) = 10 * decimal s + digit_value c"
  by (simp add: decimal_def)

lemma decimal_str_nat: "decimal (str_nat n) = n"
proof (induction n rule: str_nat.induct)
  case (1 n)
  show ?case
  proof (cases "n < 10")
    case True
    then show ?thesis
      by (subst str_nat.simps) (simp add: decimal_def digit_value_digit_char)
  next
    case False
    with 1 have "decimal (str_nat (n div 10)) = n div 10" by simp
    with False show ?thesis
      by (subst str_nat.simps) (simp add: decimal_snoc digit_value_digit_char)
  qed
qed

lemma str_int_decimal: "0 \<le> i \<Longrightarrow> int (decimal (str_int i)) = i"
  by (simp add: str_int_def decimal_str_nat)

subsection \<open>The literature lookup, step by step\<close>

lemma fmt_PStr [simp]: "fmt rt (PStr s) = s"
  by (simp add: fmt_def)

lemma fst_fetch_pubmed:
  "fst (fetch_pubmed_articles cfg rt net t) =
     (case fst (pubmed_try cfg rt net t) of
        Inl e \<Rightarrow> Inr (''Error fetching PubMed articles: '' @ str_exn rt e)
      | Inr s \<Rightarrow> Inr s)"
  by (simp add: fetch_pubmed_articles_def split: prod.splits sum.splits)

lemma snd_fetch_pubmed:
  "snd (fetch_pubmed_articles cfg rt net t) = snd (pubmed_try cfg rt net t)"
  by (simp add: fetch_pubmed_articles_def split: prod.splits sum.splits)

lemma fst_fetch_drug:
  "fst (fetch_drug_side_effects cfg rt net d) =
     (case fst (fda_try net d) of
        Inl e \<Rightarrow> Inr (''Error fetching drug information: '' @ str_exn rt e)
      | Inr s \<Rightarrow> Inr s)"
  by (simp add: fetch_drug_side_effects_def split: prod.splits sum.splits)

lemma snd_fetch_drug:
  "snd (fetch_drug_side_effects cfg rt net d) = [fda_request d]"
  by (simp add: fetch_drug_side_effects_def fda_try_def Let_def split: prod.splits sum.splits)

lemma pubmed_try_search_raises:
  "net (search_request cfg t) = Inl e \<Longrightarrow> pubmed_try cfg rt net t = (Inl e, [search_request cfg t])"
  by (simp add: pubmed_try_def Let_def)

lemma pubmed_try_search_status:
  "net (search_request cfg t) = Inr r \<Longrightarrow> status_code r \<noteq> 200 \<Longrightarrow>
   pubmed_try cfg rt net t =
     (Inr (''Error: Unable to fetch PubMed articles. Status code '' @ str_int (status_code r) @ ''.''),
      [search_request cfg t])"
  by (simp add: pubmed_try_def Let_def)

lemma pubmed_try_search_json_raises:
  "net (search_request cfg t) = Inr r \<Longrightarrow> status_code r = 200 \<Longrightarrow> json_body r = Inl e \<Longrightarrow>
   pubmed_try cfg rt net t = (Inl e, [search_request cfg t])"
  by (simp add: pubmed_try_def Let_def)

lemma pubmed_try_no_ids:
  "net (search_request cfg t) = Inr r \<Longrightarrow> status_code r = 200 \<Longrightarrow> json_body r = Inr data \<Longrightarrow>
   id_list_of data = Inr id_list \<Longrightarrow> \<not> truthy id_list \<Longrightarrow>
   pubmed_try cfg rt net t = (Inr ''No articles found for this search term.'', [search_request cfg t])"
  by (simp add: pubmed_try_def Let_def)

lemma pubmed_try_summary:
  "net (search_request cfg t) = Inr r \<Longrightarrow> status_code r = 200 \<Longrightarrow> json_body r = Inr data \<Longrightarrow>
   id_list_of data = Inr id_list \<Longrightarrow> truthy id_list \<Longrightarrow> py_join '','' id_list = Inr ids \<Longrightarrow>
   pubmed_try cfg rt net t =
     ((case net (summary_request cfg ids) of Inl e \<Rightarrow> Inl e | Inr sr \<Rightarrow> summarise rt id_list sr),
      [search_request cfg t, summary_request cfg ids])"
  by (simp add: pubmed_try_def Let_def split: sum.splits)

lemma pubmed_try_two_calls:
  assumes "snd (pubmed_try cfg rt net t) = [r1, sreq]"
  shows "\<exists>id_list. fst (pubmed_try cfg rt net t) =
           (case net sreq of Inl e \<Rightarrow> Inl e | Inr sr \<Rightarrow> summarise rt id_list sr)"
  using assms
  by (auto simp: pubmed_try_def Let_def split: sum.splits if_splits)

lemma pubmed_try_calls:
  "snd (pubmed_try cfg rt net t) = [search_request cfg t] \<or>
   (\<exists>ids. snd (pubmed_try cfg rt net t) = [search_request cfg t, summary_request cfg ids])"
  by (auto simp: pubmed_try_def Let_def split: sum.splits if_splits)

lemma str_items_strings: "str_items n (map PStr ids) = Inr ids"
  by (induction ids arbitrary: n) simp_all

lemma py_join_strings: "py_join sep (PList (map PStr ids)) = Inr (join sep ids)"
  by (simp add: py_join_def str_items_strings)

lemma detailed_response_record:
  assumes "is_summary articles i"
  shows "detailed_response rt (PDict articles) (PStr i) = Inr (spec_record rt articles i)"
proof (cases "map_of articles i")
  case None
  then show ?thesis
    by (simp add: detailed_response_def py_get_def spec_record_def fields_of_def field_or_def)
next
  case (Some v)
  with assms obtain fs where v: "v = PDict fs"
    by (auto simp: is_summary_def split: py_value.splits)
  show ?thesis
    using Some v
    by (simp add: detailed_response_def py_get_def spec_record_def fields_of_def field_or_def
             split: option.splits)
qed

lemma detailed_responses_records:
  assumes "\<forall>i \<in> set ids. is_summary articles i"
  shows "detailed_responses rt (PDict articles) (map PStr ids) = Inr (map (spec_record rt articles) ids)"
  using assms by (induction ids) (simp_all add: detailed_response_record)

lemma format_summaries_records:
  assumes "json_body sr = Inr sdata" "py_get sdata ''result'' (PDict []) = Inr (PDict articles)"
    "\<forall>i \<in> set ids. is_summary articles i"
  shows "format_summaries rt (PList (map PStr ids)) sr = Inr (join '' | '' (map (spec_record rt articles) ids))"
  using assms by (simp add: format_summaries_def detailed_responses_records)

lemma pubmed_try_success:
  assumes "net (search_request cfg t) = Inr r" "status_code r = 200" "json_body r = Inr data"
    "id_list_of data = Inr (PList (map PStr ids))" "ids \<noteq> []"
    "net (summary_request cfg (join '','' ids)) = Inr sr" "status_code sr = 200"
    "json_body sr = Inr sdata" "py_get sdata ''result'' (PDict []) = Inr (PDict articles)"
    "\<forall>i \<in> set ids. is_summary articles i"
  shows "pubmed_try cfg rt net t =
           (Inr (join '' | '' (map (spec_record rt articles) ids)),
            [search_request cfg t, summary_request cfg (join '','' ids)])"
proof -
  have "truthy (PList (map PStr ids))" using assms(5) by simp
  then have "pubmed_try cfg rt net t =
     ((case net (summary_request cfg (join '','' ids)) of Inl e \<Rightarrow> Inl e
        | Inr sr \<Rightarrow> summarise rt (PList (map PStr ids)) sr),
      [search_request cfg t, summary_request cfg (join '','' ids)])"
    using assms(1-4) by (intro pubmed_try_summary) (simp_all add: py_join_strings)
  then show ?thesis
    using assms(6-10) by (simp add: summarise_def format_summaries_records)
qed

subsection \<open>The adverse-event lookup, step by step\<close>

lemma fda_try_raises:
  "net (fda_request d) = Inl e \<Longrightarrow> fda_try net d = (Inl e, [fda_request d])"
  by (simp add: fda_try_def Let_def)

lemma fda_try_status:
  "net (fda_request d) = Inr r \<Longrightarrow> status_code r \<noteq> 200 \<Longrightarrow>
   fda_try net d = (Inr (''Error: '' @ str_int (status_code r) @ '' - Unable to fetch data from FDA API''), [fda_request d])"
  by (simp add: fda_try_def Let_def)

lemma fda_try_ok:
  "net (fda_request d) = Inr r \<Longrightarrow> status_code r = 200 \<Longrightarrow>
   fda_try net d = (and_then (json_body r) (\<lambda>data. interp (describe_events data)), [fda_request d])"
  by (simp add: fda_try_def Let_def)

lemma has_results_absent:
  "map_of d ''results'' = None \<Longrightarrow> has_results (PDict d) = Inr False"
  by (simp add: has_results_def map_of_eq_None_iff)

lemma has_results_present:
  "map_of d ''results'' = Some v \<Longrightarrow> has_results (PDict d) = and_then (py_len v) (\<lambda>n. Inr (n > 0))"
proof -
  assume a: "map_of d ''results'' = Some v"
  then have "''results'' \<in> fst ` set d"
    by (metis map_of_eq_None_iff option.distinct(1))
  with a show ?thesis by (simp add: has_results_def)
qed

lemma describe_no_results:
  assumes "map_of d ''results'' = None \<or> map_of d ''results'' = Some (PList [])"
  shows "describe_events (PDict d) = Inr ''No information available for this drug.''"
  using assms by (auto simp: describe_events_def has_results_absent has_results_present)

lemma side_effect_descriptions_reactions:
  assumes "\<forall>fs \<in> set fss. is_reaction fs"
  shows "side_effect_descriptions (map PDict fss) = Inr (map (\<lambda>fs. PStr (spec_description fs)) fss)"
  using assms
proof (induction fss)
  case Nil
  then show ?case by simp
next
  case (Cons fs fss)
  then have "is_reaction fs" by simp
  then have "py_get (PDict fs) ''reactionmeddrapt'' (PStr ''No description'') = Inr (PStr (spec_description fs))"
    by (auto simp: is_reaction_def py_get_def spec_description_def split: option.splits py_value.splits)
  with Cons show ?case by simp
qed

lemma describe_reactions:
  assumes "has_results data = Inr True" "side_effects_of data = Inr (PList (map PDict fss))"
  shows "describe_events data =
     (if fss = [] then Inr ''No side effects listed for this drug.''
      else and_then (side_effect_descriptions (map PDict fss)) (\<lambda>ds. py_join '', '' (PList ds)))"
  using assms by (simp add: describe_events_def)

lemma first_result:
  assumes "map_of d ''results'' = Some (PList (PDict f # rest))"
  shows "has_results (PDict d) = Inr True"
    and "side_effects_of (PDict d) =
          and_then (py_get (PDict f) ''patient'' (PDict [])) (\<lambda>patient. py_get patient ''reaction'' (PList []))"
  using assms by (simp_all add: has_results_present side_effects_of_def)

subsection \<open>The mocked literature API\<close>

lemma urls_differ: "PUBMED_SUMMARY_API_URL \<noteq> PUBMED_API_URL"
  by (simp add: PUBMED_SUMMARY_API_URL_def PUBMED_API_URL_def)

lemma mock_literature_search [simp]: "mock_literature a b (search_request cfg t) = a"
  by (simp add: mock_literature_def search_request_def)

lemma mock_literature_summary [simp]: "mock_literature a b (summary_request cfg ids) = b"
  by (simp add: mock_literature_def summary_request_def urls_differ)

subsection \<open>Exceptions and statuses of either request\<close>

lemma pubmed_always_string: "\<exists>s. fst (fetch_pubmed_articles cfg rt net t) = Inr s"
  by (simp add: fst_fetch_pubmed split: sum.splits)

lemma drug_always_string: "\<exists>s. fst (fetch_drug_side_effects cfg rt net d) = Inr s"
  by (simp add: fst_fetch_drug split: sum.splits)

lemma pubmed_summary_raises:
  assumes "snd (fetch_pubmed_articles cfg rt net t) = [req, sreq]" "net sreq = Inl e"
  shows "fst (fetch_pubmed_articles cfg rt net t) = Inr (''Error fetching PubMed articles: '' @ str_exn rt e)"
proof -
  from assms(1) have "snd (pubmed_try cfg rt net t) = [req, sreq]"
    by (simp add: snd_fetch_pubmed)
  from pubmed_try_two_calls [OF this] assms(2) have "fst (pubmed_try cfg rt net t) = Inl e"
    by auto
  then show ?thesis by (simp add: fst_fetch_pubmed)
qed

lemma pubmed_summary_json_raises:
  assumes "snd (fetch_pubmed_articles cfg rt net t) = [req, sreq]" "net sreq = Inr r"
    "status_code r = 200" "json_body r = Inl e"
  shows "fst (fetch_pubmed_articles cfg rt net t) = Inr (''Error fetching PubMed articles: '' @ str_exn rt e)"
proof -
  from assms(1) have "snd (pubmed_try cfg rt net t) = [req, sreq]"
    by (simp add: snd_fetch_pubmed)
  from pubmed_try_two_calls [OF this] assms(2-4) have "fst (pubmed_try cfg rt net t) = Inl e"
    by (auto simp: summarise_def format_summaries_def)
  then show ?thesis by (simp add: fst_fetch_pubmed)
qed

lemma pubmed_summary_status:
  assumes "snd (fetch_pubmed_articles cfg rt net t) = [req, sreq]" "net sreq = Inr r"
    "status_code r \<noteq> 200"
  shows "fst (fetch_pubmed_articles cfg rt net t) =
     Inr (''Error: Unable to fetch article summaries. Status code '' @ str_int (status_code r) @ ''.'')"
proof -
  from assms(1) have "snd (pubmed_try cfg rt net t) = [req, sreq]"
    by (simp add: snd_fetch_pubmed)
  from pubmed_try_two_calls [OF this] assms(2,3) have "fst (pubmed_try cfg rt net t) =
     Inr (''Error: Unable to fetch article summaries. Status code '' @ str_int (status_code r) @ ''.'')"
    by (auto simp: summarise_def)
  then show ?thesis by (simp add: fst_fetch_pubmed)
qed

lemma one_hit_calls:
  "snd (fetch_pubmed_articles cfg rt (one_hit answer) t) = [search_request cfg t, summary_request cfg ''7'']"
proof -
  have "pubmed_try cfg rt (one_hit answer) t =
     ((case one_hit answer (summary_request cfg ''7'') of Inl e \<Rightarrow> Inl e
        | Inr sr \<Rightarrow> summarise rt (PList (map PStr [''7''])) sr),
      [search_request cfg t, summary_request cfg ''7''])"
    by (rule pubmed_try_summary [where r = "json_response 200 (search_result [''7''])"
          and data = "search_result [''7'']"])
       (simp_all add: one_hit_def json_response_def search_result_def id_list_of_def py_get_def
          py_join_def)
  then show ?thesis by (simp add: snd_fetch_pubmed)
qed

lemma one_hit_summary [simp]: "one_hit answer (summary_request cfg ids) = answer"
  by (simp add: one_hit_def)

subsection \<open>The success path of the literature lookup\<close>

lemma fetch_pubmed_success:
  assumes "net (search_request cfg t) = Inr r" "status_code r = 200" "json_body r = Inr data"
    "id_list_of data = Inr (PList (map PStr ids))" "ids \<noteq> []"
    "net (summary_request cfg (join '','' ids)) = Inr sr" "status_code sr = 200"
    "json_body sr = Inr sdata" "py_get sdata ''result'' (PDict []) = Inr (PDict articles)"
    "\<forall>i \<in> set ids. is_summary articles i"
  shows "fst (fetch_pubmed_articles cfg rt net t)
           = Inr (join '' | '' (map (spec_record rt articles) ids))"
  using pubmed_try_success [OF assms, of rt] by (simp add: fst_fetch_pubmed)

lemma scenario_literature_result:
  "fst (fetch_pubmed_articles cfg rt scenario_literature ''diabetes symptoms'')
     = Inr ''Title: A, Published: 2020 | Title: B, Published: 2021''"
proof -
  let ?arts = "[(''1'', article ''A'' ''2020''), (''2'', article ''B'' ''2021'')]"
  have "fst (fetch_pubmed_articles cfg rt scenario_literature ''diabetes symptoms'')
      = Inr (join '' | '' (map (spec_record rt ?arts) [''1'', ''2'']))"
    by (rule fetch_pubmed_success
          [where r = "json_response 200 (search_result [''1'', ''2''])"
             and data = "search_result [''1'', ''2'']"
             and sr = "json_response 200 (PDict [(''result'', PDict ?arts)])"
             and sdata = "PDict [(''result'', PDict ?arts)]"])
       (simp_all add: scenario_literature_def json_response_def search_result_def id_list_of_def
          py_get_def is_summary_def article_def)
  then show ?thesis
    by (simp add: spec_record_def fields_of_def field_or_def article_def)
qed

lemma id_list_of_search_result: "id_list_of (search_result ids) = Inr (PList (map PStr ids))"
  by (simp add: id_list_of_def search_result_def py_get_def)

lemma partial_literature_facts:
  "partial_literature (search_request cfg t) = Inr (json_response 200 (search_result [''1'', ''2'']))"
  "partial_literature (summary_request cfg ids)
     = Inr (json_response 200 (PDict [(''result'', PDict partial_summaries)]))"
  "py_get (PDict [(''result'', PDict partial_summaries)]) ''result'' (PDict [])
     = Inr (PDict partial_summaries)"
  "is_summary partial_summaries ''1''" "is_summary partial_summaries ''2''"
  by (simp_all add: partial_literature_def py_get_def is_summary_def partial_summaries_def)

lemma json_response_sel [simp]:
  "status_code (json_response code v) = code" "json_body (json_response code v) = Inr v"
  by (simp_all add: json_response_def)

subsection \<open>The adverse-event lookup on a decoded body\<close>



lemma fetch_drug_ok:
  assumes "net (fda_request d) = Inr r" "status_code r = 200" "json_body r = Inr data"
  shows "fst (fetch_drug_side_effects cfg rt net d) =
     (case describe_events data of
        Inl f \<Rightarrow> Inr (''Error fetching drug information: '' @ str_fault rt f)
      | Inr s \<Rightarrow> Inr s)"
  using assms
  by (simp add: fst_fetch_drug fda_try_ok str_exn_def split: sum.splits)

lemma describe_no_reactions:
  assumes "map_of body ''results'' = Some (PList (PDict first # rest))"
    "map_of first ''patient'' = None \<or>
     map_of first ''patient'' = Some (PDict patient) \<and>
     (map_of patient ''reaction'' = None \<or> map_of patient ''reaction'' = Some (PList []))"
  shows "describe_events (PDict body) = Inr ''No side effects listed for this drug.''"
proof -
  from assms(2) have "side_effects_of (PDict body) = Inr (PList [])"
    by (auto simp: first_result(2) [OF assms(1)] py_get_def)
  with first_result(1) [OF assms(1)] show ?thesis
    by (simp add: describe_events_def)
qed

lemma describe_some_reactions:
  assumes "map_of body ''results'' = Some (PList (PDict first # rest))"
    "map_of first ''patient'' = Some (PDict patient)"
    "map_of patient ''reaction'' = Some (PList (map PDict reactions))" "reactions \<noteq> []"
    "\<forall>fs \<in> set reactions. is_reaction fs"
  shows "describe_events (PDict body) = Inr (join '', '' (map spec_description reactions))"
proof -
  have "side_effects_of (PDict body) = Inr (PList (map PDict reactions))"
    using assms(2,3) by (simp add: first_result(2) [OF assms(1)] py_get_def)
  with first_result(1) [OF assms(1)]
  have "describe_events (PDict body)
      = and_then (side_effect_descriptions (map PDict reactions)) (\<lambda>ds. py_join '', '' (PList ds))"
    using assms(4) by (simp add: describe_reactions)
  also have "\<dots> = py_join '', '' (PList (map PStr (map spec_description reactions)))"
    by (simp add: side_effect_descriptions_reactions [OF assms(5)] comp_def)
  also have "\<dots> = Inr (join '', '' (map spec_description reactions))"
    by (rule py_join_strings)
  finally show ?thesis .
qed

subsection \<open>Joined text and the query that is sent\<close>

lemma split_all_plain: "c \<notin> set xs \<Longrightarrow> split_all c xs = [xs]"
  by (induction xs) auto

lemma split_all_first: "c \<notin> set xs \<Longrightarrow> split_all c (xs @ c # ys) = xs # split_all c ys"
  by (induction xs) auto

lemma fda_url_query:
  assumes "CHR ''#'' \<notin> set d"
  shows "url_query (FDA_API_URL d) = ''search=patient.drug.medicinalproduct:'' @ d @ ''&limit=1''"
proof -
  have "CHR ''#'' \<notin> set (FDA_API_URL d)"
    using assms by (simp add: FDA_API_URL_def)
  then have "takeWhile (\<lambda>x. x \<noteq> CHR ''#'') (FDA_API_URL d) = FDA_API_URL d"
    by (auto simp: takeWhile_eq_all_conv)
  then show ?thesis
    by (simp add: url_query_def) (simp add: FDA_API_URL_def)
qed

lemma fda_outbound:
  assumes "CHR ''&'' \<notin> set d" "CHR ''#'' \<notin> set d"
  shows "outbound_query (fda_request d)
           = [(''search'', ''patient.drug.medicinalproduct:'' @ d), (''limit'', ''1'')]"
proof -
  let ?first = "''search=patient.drug.medicinalproduct:'' @ d"
  have no_amp: "CHR ''&'' \<notin> set ?first"
    using assms(1) by simp
  have "split_all CHR ''&'' (?first @ CHR ''&'' # ''limit=1'') = ?first # split_all CHR ''&'' ''limit=1''"
    by (rule split_all_first [OF no_amp])
  moreover have "split_all CHR ''&'' ''limit=1'' = [''limit=1'']"
    by (rule split_all_plain) simp
  ultimately have pieces:
    "split_all CHR ''&'' (url_query (FDA_API_URL d)) = [?first, ''limit=1'']"
    by (simp add: fda_url_query [OF assms(2)])
  show ?thesis
    by (simp add: outbound_query_def fda_request_def query_pairs_def pieces query_item_def)
qed

section \<open>The contract of the endpoint\<close>




section \<open>Failures of the tools are returned as data\<close>

text \<open>
  Claim C2. Whatever the HTTP layer does and whatever it answers, both tool functions
  return a string: no exception reaches their caller. When a request raises, or when
  decoding a response raises, the returned string is the function's error prefix
  followed by \<open>str(e)\<close> of that exception. This holds for the search request, for the
  summary request once it has been issued, and for the adverse-event request.
\<close>

theorem tools_never_raise:
  "(\<exists>s. fst (fetch_pubmed_articles cfg rt net search_term) = Inr s) \<and>
   (\<exists>s. fst (fetch_drug_side_effects cfg rt net drug_name) = Inr s) \<and>
   (net (search_request cfg search_term) = Inl e \<longrightarrow>
      fst (fetch_pubmed_articles cfg rt net search_term)
        = Inr (''Error fetching PubMed articles: '' @ str_exn rt e)) \<and>
   (snd (fetch_pubmed_articles cfg rt net search_term) = [req, sreq] \<and> net sreq = Inl e \<longrightarrow>
      fst (fetch_pubmed_articles cfg rt net search_term)
        = Inr (''Error fetching PubMed articles: '' @ str_exn rt e)) \<and>
   (net (fda_request drug_name) = Inl e \<longrightarrow>
      fst (fetch_drug_side_effects cfg rt net drug_name)
        = Inr (''Error fetching drug information: '' @ str_exn rt e)) \<and>
   (net (search_request cfg search_term) = Inr r \<and> status_code r = 200 \<and> json_body r = Inl e \<longrightarrow>
      fst (fetch_pubmed_articles cfg rt net search_term)
        = Inr (''Error fetching PubMed articles: '' @ str_exn rt e)) \<and>
   (snd (fetch_pubmed_articles cfg rt net search_term) = [req, sreq] \<and> net sreq = Inr r \<and>
    status_code r = 200 \<and> json_body r = Inl e \<longrightarrow>
      fst (fetch_pubmed_articles cfg rt net search_term)
        = Inr (''Error fetching PubMed articles: '' @ str_exn rt e)) \<and>
   (net (fda_request drug_name) = Inr r \<and> status_code r = 200 \<and> json_body r = Inl e \<longrightarrow>
      fst (fetch_drug_side_effects cfg rt net drug_name)
        = Inr (''Error fetching drug information: '' @ str_exn rt e))"
proof (intro conjI impI)
  show "\<exists>s. fst (fetch_pubmed_articles cfg rt net search_term) = Inr s"
    by (rule pubmed_always_string)
  show "\<exists>s. fst (fetch_drug_side_effects cfg rt net drug_name) = Inr s"
    by (rule drug_always_string)
next
  assume "net (search_request cfg search_term) = Inl e"
  then show "fst (fetch_pubmed_articles cfg rt net search_term)
        = Inr (''Error fetching PubMed articles: '' @ str_exn rt e)"
    by (simp add: fst_fetch_pubmed pubmed_try_search_raises)
next
  assume "snd (fetch_pubmed_articles cfg rt net search_term) = [req, sreq] \<and> net sreq = Inl e"
  then show "fst (fetch_pubmed_articles cfg rt net search_term)
        = Inr (''Error fetching PubMed articles: '' @ str_exn rt e)"
    using pubmed_summary_raises by blast
next
  assume "net (fda_request drug_name) = Inl e"
  then show "fst (fetch_drug_side_effects cfg rt net drug_name)
        = Inr (''Error fetching drug information: '' @ str_exn rt e)"
    by (simp add: fst_fetch_drug fda_try_raises)
next
  assume "net (search_request cfg search_term) = Inr r \<and> status_code r = 200 \<and> json_body r = Inl e"
  then show "fst (fetch_pubmed_articles cfg rt net search_term)
        = Inr (''Error fetching PubMed articles: '' @ str_exn rt e)"
    by (simp add: fst_fetch_pubmed pubmed_try_search_json_raises)
next
  assume "snd (fetch_pubmed_articles cfg rt net search_term) = [req, sreq] \<and> net sreq = Inr r \<and>
    status_code r = 200 \<and> json_body r = Inl e"
  then show "fst (fetch_pubmed_articles cfg rt net search_term)
        = Inr (''Error fetching PubMed articles: '' @ str_exn rt e)"
    using pubmed_summary_json_raises by blast
next
  assume "net (fda_request drug_name) = Inr r \<and> status_code r = 200 \<and> json_body r = Inl e"
  then show "fst (fetch_drug_side_effects cfg rt net drug_name)
        = Inr (''Error fetching drug information: '' @ str_exn rt e)"
    by (simp add: fst_fetch_drug fda_try_ok)
qed

theorem tools_never_raise_witness:
  "failing ''timed out'' (search_request no_keys ''flu'') = Inl (Raised ''timed out'') \<and>
   fst (fetch_pubmed_articles no_keys plain_runtime (failing ''timed out'') ''flu'')
     = Inr ''Error fetching PubMed articles: timed out'' \<and>
   failing ''timed out'' (fda_request ''aspirin'') = Inl (Raised ''timed out'') \<and>
   fst (fetch_drug_side_effects no_keys plain_runtime (failing ''timed out'') ''aspirin'')
     = Inr ''Error fetching drug information: timed out'' \<and>
   snd (fetch_pubmed_articles no_keys plain_runtime (one_hit (Inl (Raised ''reset''))) ''flu'')
     = [search_request no_keys ''flu'', summary_request no_keys ''7''] \<and>
   one_hit (Inl (Raised ''reset'')) (summary_request no_keys ''7'') = Inl (Raised ''reset'') \<and>
   fst (fetch_pubmed_articles no_keys plain_runtime (one_hit (Inl (Raised ''reset''))) ''flu'')
     = Inr ''Error fetching PubMed articles: reset'' \<and>
   (\<lambda>req. Inr (undecodable 200 ''not JSON'')) (search_request no_keys ''flu'')
     = (Inr (undecodable 200 ''not JSON'') :: py_exn + http_response) \<and>
   status_code (undecodable 200 ''not JSON'') = 200 \<and>
   json_body (undecodable 200 ''not JSON'') = Inl (Raised ''not JSON'') \<and>
   fst (fetch_pubmed_articles no_keys plain_runtime (\<lambda>req. Inr (undecodable 200 ''not JSON'')) ''flu'')
     = Inr ''Error fetching PubMed articles: not JSON'' \<and>
   fst (fetch_drug_side_effects no_keys plain_runtime (\<lambda>req. Inr (undecodable 200 ''not JSON'')) ''aspirin'')
     = Inr ''Error fetching drug information: not JSON'' \<and>
   snd (fetch_pubmed_articles no_keys plain_runtime (one_hit (Inr (undecodable 200 ''not JSON''))) ''flu'')
     = [search_request no_keys ''flu'', summary_request no_keys ''7''] \<and>
   one_hit (Inr (undecodable 200 ''not JSON'')) (summary_request no_keys ''7'')
     = Inr (undecodable 200 ''not JSON'') \<and>
   fst (fetch_pubmed_articles no_keys plain_runtime (one_hit (Inr (undecodable 200 ''not JSON''))) ''flu'')
     = Inr ''Error fetching PubMed articles: not JSON''"
proof -
  let ?cfg = no_keys and ?rt = plain_runtime
  have plain: "\<And>m. str_exn ?rt (Raised m) = m"
    by (simp add: str_exn_def)
  have a: "failing ''timed out'' (search_request ?cfg ''flu'') = Inl (Raised ''timed out'')"
    and b: "failing ''timed out'' (fda_request ''aspirin'') = Inl (Raised ''timed out'')"
    by (simp_all add: failing_def)
  note t1 = tools_never_raise [of ?cfg ?rt "failing ''timed out''" "''flu''" "''aspirin''"
      "Raised ''timed out''"]
  from t1 a have a': "fst (fetch_pubmed_articles ?cfg ?rt (failing ''timed out'') ''flu'')
     = Inr (''Error fetching PubMed articles: '' @ str_exn ?rt (Raised ''timed out''))"
    by blast
  from t1 b have b': "fst (fetch_drug_side_effects ?cfg ?rt (failing ''timed out'') ''aspirin'')
     = Inr (''Error fetching drug information: '' @ str_exn ?rt (Raised ''timed out''))"
    by blast
  have c: "snd (fetch_pubmed_articles ?cfg ?rt (one_hit (Inl (Raised ''reset''))) ''flu'')
     = [search_request ?cfg ''flu'', summary_request ?cfg ''7'']"
    and d: "one_hit (Inl (Raised ''reset'')) (summary_request ?cfg ''7'') = Inl (Raised ''reset'')"
    by (simp_all add: one_hit_calls)
  from tools_never_raise [of ?cfg ?rt "one_hit (Inl (Raised ''reset''))" "''flu''" "''aspirin''"
      "Raised ''reset''" "search_request ?cfg ''flu''" "summary_request ?cfg ''7''"] c d
  have c': "fst (fetch_pubmed_articles ?cfg ?rt (one_hit (Inl (Raised ''reset''))) ''flu'')
     = Inr (''Error fetching PubMed articles: '' @ str_exn ?rt (Raised ''reset''))"
    by blast
  let ?bad = "undecodable 200 ''not JSON''"
  have e: "status_code ?bad = 200" and f: "json_body ?bad = Inl (Raised ''not JSON'')"
    by (simp_all add: undecodable_def)
  note t3 = tools_never_raise [of ?cfg ?rt "\<lambda>req. Inr ?bad" "''flu''" "''aspirin''"
      "Raised ''not JSON''" _ _ ?bad]
  from t3 e f have e': "fst (fetch_pubmed_articles ?cfg ?rt (\<lambda>req. Inr ?bad) ''flu'')
     = Inr (''Error fetching PubMed articles: '' @ str_exn ?rt (Raised ''not JSON''))"
    by blast
  from t3 e f have f': "fst (fetch_drug_side_effects ?cfg ?rt (\<lambda>req. Inr ?bad) ''aspirin'')
     = Inr (''Error fetching drug information: '' @ str_exn ?rt (Raised ''not JSON''))"
    by blast
  have g: "snd (fetch_pubmed_articles ?cfg ?rt (one_hit (Inr ?bad)) ''flu'')
     = [search_request ?cfg ''flu'', summary_request ?cfg ''7'']"
    and h: "one_hit (Inr ?bad) (summary_request ?cfg ''7'') = Inr ?bad"
    by (simp_all add: one_hit_calls)
  from tools_never_raise [of ?cfg ?rt "one_hit (Inr ?bad)" "''flu''" "''aspirin''"
      "Raised ''not JSON''" "search_request ?cfg ''flu''" "summary_request ?cfg ''7''" ?bad] g h e f
  have g': "fst (fetch_pubmed_articles ?cfg ?rt (one_hit (Inr ?bad)) ''flu'')
     = Inr (''Error fetching PubMed articles: '' @ str_exn ?rt (Raised ''not JSON''))"
    by blast
  show ?thesis
    using a a' b b' c d c' e f e' f' g h g' by (simp add: plain)
qed

text \<open>
  Claim C3. A status code outside 200..299 answered by the search request, by the summary
  request (once issued) or by the adverse-event request is not raised: the function
  returns its error message for that step, and the message contains \<open>str(s)\<close>, the
  decimal numeral that reads back as the status code. (The code compares with 200, so
  the same holds of every status other than 200.)
\<close>

theorem status_codes_reported:
  assumes "s < 200 \<or> 299 < s"
  shows "(net (search_request cfg search_term) = Inr r \<and> status_code r = s \<longrightarrow>
            fst (fetch_pubmed_articles cfg rt net search_term)
              = Inr (''Error: Unable to fetch PubMed articles. Status code '' @ str_int s @ ''.'') \<and>
            sublist (str_int s)
              (''Error: Unable to fetch PubMed articles. Status code '' @ str_int s @ ''.'')) \<and>
         (snd (fetch_pubmed_articles cfg rt net search_term) = [req, sreq] \<and>
          net sreq = Inr r \<and> status_code r = s \<longrightarrow>
            fst (fetch_pubmed_articles cfg rt net search_term)
              = Inr (''Error: Unable to fetch article summaries. Status code '' @ str_int s @ ''.'') \<and>
            sublist (str_int s)
              (''Error: Unable to fetch article summaries. Status code '' @ str_int s @ ''.'')) \<and>
         (net (fda_request drug_name) = Inr r \<and> status_code r = s \<longrightarrow>
            fst (fetch_drug_side_effects cfg rt net drug_name)
              = Inr (''Error: '' @ str_int s @ '' - Unable to fetch data from FDA API'') \<and>
            sublist (str_int s) (''Error: '' @ str_int s @ '' - Unable to fetch data from FDA API'')) \<and>
         (0 \<le> s \<longrightarrow> int (decimal (str_int s)) = s)"
proof -
  from assms have ne: "s \<noteq> 200" by auto
  show ?thesis
  proof (intro conjI impI)
    assume "0 \<le> s"
    then show "int (decimal (str_int s)) = s"
      by (rule str_int_decimal)
  next
    assume "net (search_request cfg search_term) = Inr r \<and> status_code r = s"
    with ne show "fst (fetch_pubmed_articles cfg rt net search_term)
        = Inr (''Error: Unable to fetch PubMed articles. Status code '' @ str_int s @ ''.'')"
      using pubmed_try_search_status [of net cfg search_term r rt]
      by (simp only: fst_fetch_pubmed) auto
  next
    assume "snd (fetch_pubmed_articles cfg rt net search_term) = [req, sreq] \<and>
          net sreq = Inr r \<and> status_code r = s"
    with ne show "fst (fetch_pubmed_articles cfg rt net search_term)
        = Inr (''Error: Unable to fetch article summaries. Status code '' @ str_int s @ ''.'')"
      using pubmed_summary_status [of cfg rt net search_term req sreq r] by blast
  next
    assume "net (fda_request drug_name) = Inr r \<and> status_code r = s"
    with ne show "fst (fetch_drug_side_effects cfg rt net drug_name)
        = Inr (''Error: '' @ str_int s @ '' - Unable to fetch data from FDA API'')"
      using fda_try_status [of net drug_name r]
      by (simp only: fst_fetch_drug) auto
  qed (rule sublist_appendI)+
qed

theorem status_codes_reported_witness:
  "((404::int) < 200 \<or> 299 < (404::int)) \<and>
   (\<lambda>req. Inr (undecodable 404 ''Not Found'')) (search_request no_keys ''flu'')
     = (Inr (undecodable 404 ''Not Found'') :: py_exn + http_response) \<and>
   status_code (undecodable 404 ''Not Found'') = 404 \<and>
   fst (fetch_pubmed_articles no_keys plain_runtime (\<lambda>req. Inr (undecodable 404 ''Not Found'')) ''flu'')
     = Inr ''Error: Unable to fetch PubMed articles. Status code 404.'' \<and>
   sublist ''404'' ''Error: Unable to fetch PubMed articles. Status code 404.'' \<and>
   snd (fetch_pubmed_articles no_keys plain_runtime (one_hit (Inr (undecodable 404 ''Not Found''))) ''flu'')
     = [search_request no_keys ''flu'', summary_request no_keys ''7''] \<and>
   one_hit (Inr (undecodable 404 ''Not Found'')) (summary_request no_keys ''7'')
     = Inr (undecodable 404 ''Not Found'') \<and>
   fst (fetch_pubmed_articles no_keys plain_runtime (one_hit (Inr (undecodable 404 ''Not Found''))) ''flu'')
     = Inr ''Error: Unable to fetch article summaries. Status code 404.'' \<and>
   sublist ''404'' ''Error: Unable to fetch article summaries. Status code 404.'' \<and>
   fst (fetch_drug_side_effects no_keys plain_runtime (\<lambda>req. Inr (undecodable 404 ''Not Found'')) ''aspirin'')
     = Inr ''Error: 404 - Unable to fetch data from FDA API'' \<and>
   sublist ''404'' ''Error: 404 - Unable to fetch data from FDA API'' \<and>
   (0::int) \<le> 404 \<and> int (decimal ''404'') = 404"
proof -
  let ?r = "undecodable 404 ''Not Found''"
  have s: "(404::int) < 200 \<or> 299 < (404::int)" by simp
  have st: "status_code ?r = 404" by (simp add: undecodable_def)
  have digits: "str_int 404 = ''404''" by code_simp
  have calls: "snd (fetch_pubmed_articles no_keys plain_runtime (one_hit (Inr ?r)) ''flu'')
     = [search_request no_keys ''flu'', summary_request no_keys ''7'']"
    and answer: "one_hit (Inr ?r) (summary_request no_keys ''7'') = Inr ?r"
    by (simp_all add: one_hit_calls)
  from status_codes_reported [OF s, of "\<lambda>req. Inr ?r" no_keys "''flu''" ?r plain_runtime _ _ "''aspirin''"] st
  have direct: "fst (fetch_pubmed_articles no_keys plain_runtime (\<lambda>req. Inr ?r) ''flu'')
       = Inr (''Error: Unable to fetch PubMed articles. Status code '' @ str_int 404 @ ''.'')"
    "sublist (str_int 404) (''Error: Unable to fetch PubMed articles. Status code '' @ str_int 404 @ ''.'')"
    "fst (fetch_drug_side_effects no_keys plain_runtime (\<lambda>req. Inr ?r) ''aspirin'')
       = Inr (''Error: '' @ str_int 404 @ '' - Unable to fetch data from FDA API'')"
    "sublist (str_int 404) (''Error: '' @ str_int 404 @ '' - Unable to fetch data from FDA API'')"
    "int (decimal (str_int 404)) = 404"
    by simp_all
  from status_codes_reported [OF s, of "one_hit (Inr ?r)" no_keys "''flu''" ?r plain_runtime
      "search_request no_keys ''flu''" "summary_request no_keys ''7''"] calls answer st
  have second: "fst (fetch_pubmed_articles no_keys plain_runtime (one_hit (Inr ?r)) ''flu'')
       = Inr (''Error: Unable to fetch article summaries. Status code '' @ str_int 404 @ ''.'')"
    "sublist (str_int 404) (''Error: Unable to fetch article summaries. Status code '' @ str_int 404 @ ''.'')"
    by blast+
  show ?thesis
    using s st calls answer direct second by (simp add: digits)
qed

section \<open>Results of the literature lookup\<close>

text \<open>
  Claim C4. When both literature requests succeed (status 200, a decodable body), the
  identifier list is a non-empty list of strings and the summary result map holds an
  object for each identifier it knows, the function returns one record per identifier,
  each \<open>Title: {t}, Published: {p}\<close> with the title and publication date found under
  that identifier or the placeholders \<open>No title available\<close> and
  \<open>No publication date available\<close>, joined by \<open>" | "\<close>. In the specification's
  scenario (identifiers 1 and 2, titles A and B, dates 2020 and 2021) the result is
  exactly \<open>Title: A, Published: 2020 | Title: B, Published: 2021\<close>.
\<close>

theorem records_formatted:
  "(net (search_request cfg search_term) = Inr r \<and> status_code r = 200 \<and>
    json_body r = Inr data \<and> id_list_of data = Inr (PList (map PStr ids)) \<and> ids \<noteq> [] \<and>
    net (summary_request cfg (join '','' ids)) = Inr sr \<and> status_code sr = 200 \<and>
    json_body sr = Inr sdata \<and> py_get sdata ''result'' (PDict []) = Inr (PDict articles) \<and>
    (\<forall>i \<in> set ids. is_summary articles i) \<longrightarrow>
      fst (fetch_pubmed_articles cfg rt net search_term)
        = Inr (join '' | '' (map (spec_record rt articles) ids))) \<and>
   fst (fetch_pubmed_articles cfg rt scenario_literature ''diabetes symptoms'')
     = Inr ''Title: A, Published: 2020 | Title: B, Published: 2021''"
proof (intro conjI impI)
  assume h: "net (search_request cfg search_term) = Inr r \<and> status_code r = 200 \<and>
    json_body r = Inr data \<and> id_list_of data = Inr (PList (map PStr ids)) \<and> ids \<noteq> [] \<and>
    net (summary_request cfg (join '','' ids)) = Inr sr \<and> status_code sr = 200 \<and>
    json_body sr = Inr sdata \<and> py_get sdata ''result'' (PDict []) = Inr (PDict articles) \<and>
    (\<forall>i \<in> set ids. is_summary articles i)"
  show "fst (fetch_pubmed_articles cfg rt net search_term)
        = Inr (join '' | '' (map (spec_record rt articles) ids))"
    by (rule fetch_pubmed_success [of net cfg search_term r data ids sr sdata articles rt])
       (simp_all add: h)
next
  show "fst (fetch_pubmed_articles cfg rt scenario_literature ''diabetes symptoms'')
     = Inr ''Title: A, Published: 2020 | Title: B, Published: 2021''"
    by (rule scenario_literature_result)
qed

theorem records_formatted_witness:
  "partial_literature (search_request some_keys ''flu'')
     = Inr (json_response 200 (search_result [''1'', ''2''])) \<and>
   status_code (json_response 200 (search_result [''1'', ''2''])) = 200 \<and>
   json_body (json_response 200 (search_result [''1'', ''2''])) = Inr (search_result [''1'', ''2'']) \<and>
   id_list_of (search_result [''1'', ''2'']) = Inr (PList (map PStr [''1'', ''2''])) \<and>
   [''1'', ''2''] \<noteq> ([] :: string list) \<and>
   partial_literature (summary_request some_keys (join '','' [''1'', ''2'']))
     = Inr (json_response 200 (PDict [(''result'', PDict partial_summaries)])) \<and>
   status_code (json_response 200 (PDict [(''result'', PDict partial_summaries)])) = 200 \<and>
   json_body (json_response 200 (PDict [(''result'', PDict partial_summaries)]))
     = Inr (PDict [(''result'', PDict partial_summaries)]) \<and>
   py_get (PDict [(''result'', PDict partial_summaries)]) ''result'' (PDict [])
     = Inr (PDict partial_summaries) \<and>
   is_summary partial_summaries ''1'' \<and> is_summary partial_summaries ''2'' \<and>
   fst (fetch_pubmed_articles some_keys plain_runtime partial_literature ''flu'')
     = Inr (''Title: A, Published: No publication date available'' @ '' | '' @
            ''Title: No title available, Published: No publication date available'')"
proof -
  have all: "\<forall>i \<in> set [''1'', ''2'']. is_summary partial_summaries i"
    by (simp add: partial_literature_facts)
  from records_formatted [of partial_literature some_keys "''flu''"
      "json_response 200 (search_result [''1'', ''2''])" "search_result [''1'', ''2'']" "[''1'', ''2'']"
      "json_response 200 (PDict [(''result'', PDict partial_summaries)])"
      "PDict [(''result'', PDict partial_summaries)]" partial_summaries plain_runtime] all
  have "fst (fetch_pubmed_articles some_keys plain_runtime partial_literature ''flu'')
      = Inr (join '' | '' (map (spec_record plain_runtime partial_summaries) [''1'', ''2'']))"
    by (simp add: partial_literature_facts id_list_of_search_result)
  moreover have "map (spec_record plain_runtime partial_summaries) [''1'', ''2'']
      = [''Title: A, Published: No publication date available'',
         ''Title: No title available, Published: No publication date available'']"
    by (simp add: spec_record_def fields_of_def field_or_def partial_summaries_def)
  ultimately have "fst (fetch_pubmed_articles some_keys plain_runtime partial_literature ''flu'')
     = Inr (''Title: A, Published: No publication date available'' @ '' | '' @
            ''Title: No title available, Published: No publication date available'')"
    by simp
  then show ?thesis
    by (simp add: partial_literature_facts id_list_of_search_result)
qed

text \<open>
  Claim C5. When the search succeeds and the identifier list it yields is empty (also
  when the body has no \<open>esearchresult\<close> or no \<open>idlist\<close>, whose default is the empty
  list), the function returns exactly \<open>No articles found for this search term.\<close> as
  its value, and the search request is the only request it has made.
\<close>

theorem no_articles_found:
  assumes "net (search_request cfg search_term) = Inr r" "status_code r = 200"
    "json_body r = Inr data" "id_list_of data = Inr (PList [])"
  shows "fetch_pubmed_articles cfg rt net search_term
           = (Inr ''No articles found for this search term.'', [search_request cfg search_term])"
  using pubmed_try_no_ids [of net cfg search_term r data "PList []" rt] assms
  by (simp add: fetch_pubmed_articles_def)

theorem no_articles_found_witness:
  "(\<lambda>req. Inr (json_response 200 (search_result []))) (search_request no_keys ''flu'')
     = (Inr (json_response 200 (search_result [])) :: py_exn + http_response) \<and>
   status_code (json_response 200 (search_result [])) = 200 \<and>
   json_body (json_response 200 (search_result [])) = Inr (search_result []) \<and>
   id_list_of (search_result []) = Inr (PList []) \<and>
   fetch_pubmed_articles no_keys plain_runtime (\<lambda>req. Inr (json_response 200 (search_result []))) ''flu''
     = (Inr ''No articles found for this search term.'', [search_request no_keys ''flu'']) \<and>
   id_list_of (PDict []) = Inr (PList []) \<and>
   fetch_pubmed_articles no_keys plain_runtime (\<lambda>req. Inr (json_response 200 (PDict []))) ''flu''
     = (Inr ''No articles found for this search term.'', [search_request no_keys ''flu''])"
proof -
  have a: "id_list_of (search_result []) = Inr (PList [])"
    and b: "id_list_of (PDict []) = Inr (PList [])"
    by (simp_all add: id_list_of_def search_result_def py_get_def)
  have "fetch_pubmed_articles no_keys plain_runtime (\<lambda>req. Inr (json_response 200 (search_result []))) ''flu''
     = (Inr ''No articles found for this search term.'', [search_request no_keys ''flu''])"
    by (rule no_articles_found [where r = "json_response 200 (search_result [])"
          and data = "search_result []"]) (simp_all add: a)
  moreover
  have "fetch_pubmed_articles no_keys plain_runtime (\<lambda>req. Inr (json_response 200 (PDict []))) ''flu''
     = (Inr ''No articles found for this search term.'', [search_request no_keys ''flu''])"
    by (rule no_articles_found [where r = "json_response 200 (PDict [])" and data = "PDict []"])
       (simp_all add: b)
  ultimately show ?thesis
    using a b by simp
qed

text \<open>
  Claim C10. On the success path the output consists of one entry per identifier, in the
  order of the identifier list: it is the first entry followed by \<open>" | "\<close> and the next
  entry for each further identifier, the k-th entry being the \<open>Title: ..., Published: ...\<close>
  record of the k-th identifier. An identifier that the summary result map does not
  contain still has its entry, with both placeholders.
\<close>

theorem one_record_per_identifier:
  assumes "net (search_request cfg search_term) = Inr r" "status_code r = 200"
    "json_body r = Inr data" "id_list_of data = Inr (PList (map PStr ids))" "ids \<noteq> []"
    "net (summary_request cfg (join '','' ids)) = Inr sr" "status_code sr = 200"
    "json_body sr = Inr sdata" "py_get sdata ''result'' (PDict []) = Inr (PDict articles)"
    "\<forall>i \<in> set ids. is_summary articles i"
  shows "\<exists>entries.
           length entries = length ids \<and>
           (\<forall>k < length ids.
              entries ! k =
                ''Title: '' @ field_or rt (fields_of articles (ids ! k)) ''title'' ''No title available''
                @ '', Published: ''
                @ field_or rt (fields_of articles (ids ! k)) ''pubdate''
                    ''No publication date available'') \<and>
           (\<forall>k < length ids. map_of articles (ids ! k) = None \<longrightarrow>
              entries ! k = ''Title: No title available, Published: No publication date available'') \<and>
           fst (fetch_pubmed_articles cfg rt net search_term)
             = Inr (hd entries @ concat (map (\<lambda>entry. '' | '' @ entry) (tl entries)))"
proof (intro exI conjI allI impI)
  let ?entries = "map (spec_record rt articles) ids"
  show "length ?entries = length ids"
    by simp
  have "fst (fetch_pubmed_articles cfg rt net search_term) = Inr (join '' | '' ?entries)"
    by (rule fetch_pubmed_success [OF assms])
  also have "join '' | '' ?entries
      = hd ?entries @ concat (map (\<lambda>entry. '' | '' @ entry) (tl ?entries))"
  proof -
    have "join sep ss = hd ss @ concat (map (\<lambda>entry. sep @ entry) (tl ss))"
      if "ss \<noteq> []" for sep ss
      using that by (induction sep ss rule: join.induct) simp_all
    with assms(5) show ?thesis by simp
  qed
  finally show "fst (fetch_pubmed_articles cfg rt net search_term)
      = Inr (hd ?entries @ concat (map (\<lambda>entry. '' | '' @ entry) (tl ?entries)))" .
next
  fix k assume "k < length ids"
  then show "map (spec_record rt articles) ids ! k =
      ''Title: '' @ field_or rt (fields_of articles (ids ! k)) ''title'' ''No title available''
      @ '', Published: ''
      @ field_or rt (fields_of articles (ids ! k)) ''pubdate'' ''No publication date available''"
    by (simp add: spec_record_def)
next
  fix k assume "k < length ids" "map_of articles (ids ! k) = None"
  then show "map (spec_record rt articles) ids ! k
      = ''Title: No title available, Published: No publication date available''"
    by (simp add: spec_record_def fields_of_def field_or_def)
qed

theorem one_record_per_identifier_witness:
  "partial_literature (search_request no_keys ''fever causes'')
     = Inr (json_response 200 (search_result [''1'', ''2''])) \<and>
   status_code (json_response 200 (search_result [''1'', ''2''])) = 200 \<and>
   json_body (json_response 200 (search_result [''1'', ''2''])) = Inr (search_result [''1'', ''2'']) \<and>
   id_list_of (search_result [''1'', ''2'']) = Inr (PList (map PStr [''1'', ''2''])) \<and>
   [''1'', ''2''] \<noteq> ([] :: string list) \<and>
   partial_literature (summary_request no_keys (join '','' [''1'', ''2'']))
     = Inr (json_response 200 (PDict [(''result'', PDict partial_summaries)])) \<and>
   status_code (json_response 200 (PDict [(''result'', PDict partial_summaries)])) = 200 \<and>
   json_body (json_response 200 (PDict [(''result'', PDict partial_summaries)]))
     = Inr (PDict [(''result'', PDict partial_summaries)]) \<and>
   py_get (PDict [(''result'', PDict partial_summaries)]) ''result'' (PDict [])
     = Inr (PDict partial_summaries) \<and>
   is_summary partial_summaries ''1'' \<and> is_summary partial_summaries ''2'' \<and>
   map_of partial_summaries ''2'' = None \<and>
   fst (fetch_pubmed_articles no_keys plain_runtime partial_literature ''fever causes'')
     = Inr ''Title: A, Published: No publication date available | Title: No title available, Published: No publication date available''"
proof -
  let ?e0 = "''Title: A, Published: No publication date available''"
  let ?e1 = "''Title: No title available, Published: No publication date available''"
  have all: "\<forall>i \<in> set [''1'', ''2'']. is_summary partial_summaries i"
    by (simp add: partial_literature_facts)
  have absent: "map_of partial_summaries ''2'' = None"
    by (simp add: partial_summaries_def)
  have first: "''Title: '' @ field_or plain_runtime (fields_of partial_summaries ''1'') ''title''
        ''No title available'' @ '', Published: ''
      @ field_or plain_runtime (fields_of partial_summaries ''1'') ''pubdate''
        ''No publication date available'' = ?e0"
    by (simp add: fields_of_def field_or_def partial_summaries_def)
  from one_record_per_identifier [of partial_literature no_keys "''fever causes''"
      "json_response 200 (search_result [''1'', ''2''])" "search_result [''1'', ''2'']" "[''1'', ''2'']"
      "json_response 200 (PDict [(''result'', PDict partial_summaries)])"
      "PDict [(''result'', PDict partial_summaries)]" partial_summaries plain_runtime] all
  obtain entries where e:
    "length entries = length [''1'', ''2'']"
    "\<forall>k < length [''1'', ''2''].
        entries ! k =
          ''Title: '' @ field_or plain_runtime (fields_of partial_summaries ([''1'', ''2''] ! k))
             ''title'' ''No title available''
          @ '', Published: ''
          @ field_or plain_runtime (fields_of partial_summaries ([''1'', ''2''] ! k)) ''pubdate''
              ''No publication date available''"
    "\<forall>k < length [''1'', ''2'']. map_of partial_summaries ([''1'', ''2''] ! k) = None \<longrightarrow>
        entries ! k = ?e1"
    "fst (fetch_pubmed_articles no_keys plain_runtime partial_literature ''fever causes'')
        = Inr (hd entries @ concat (map (\<lambda>entry. '' | '' @ entry) (tl entries)))"
    by (auto simp: partial_literature_facts id_list_of_search_result)
  from e(2) have "entries ! 0 =
      ''Title: '' @ field_or plain_runtime (fields_of partial_summaries ''1'') ''title''
        ''No title available'' @ '', Published: ''
      @ field_or plain_runtime (fields_of partial_summaries ''1'') ''pubdate''
        ''No publication date available''"
    by (auto dest: spec [of _ 0])
  with first have e0: "entries ! 0 = ?e0"
    by simp
  from e(3) absent have e1: "entries ! 1 = ?e1"
    by (auto dest: spec [of _ 1])
  from e(1) obtain a b where ab: "entries = [a, b]"
    by (cases entries; cases "tl entries") auto
  with e0 e1 have "entries = [?e0, ?e1]"
    by simp
  with e(4) have derived:
    "fst (fetch_pubmed_articles no_keys plain_runtime partial_literature ''fever causes'')
     = Inr ''Title: A, Published: No publication date available | Title: No title available, Published: No publication date available''"
    by simp
  have evaluated:
    "fst (fetch_pubmed_articles no_keys plain_runtime partial_literature ''fever causes'')
     = Inr ''Title: A, Published: No publication date available | Title: No title available, Published: No publication date available''"
    by code_simp
  from derived evaluated show ?thesis
    using absent by (simp add: partial_literature_facts id_list_of_search_result)
qed

section \<open>Results of the adverse-event lookup\<close>

text \<open>
  Claim C6. For a successful response (status 200, body a JSON object): when the
  \<open>results\<close> key is absent or the results list is empty, the function returns exactly
  \<open>No information available for this drug.\<close>; when the first result has no reaction
  list (no \<open>patient\<close>, a patient without \<open>reaction\<close>, or an empty reaction list) it
  returns the fixed string \<open>No side effects listed for this drug.\<close>
\<close>

theorem nothing_to_report:
  assumes "net (fda_request drug_name) = Inr r" "status_code r = 200"
    "json_body r = Inr (PDict body)"
  shows "(map_of body ''results'' = None \<or> map_of body ''results'' = Some (PList []) \<longrightarrow>
            fst (fetch_drug_side_effects cfg rt net drug_name)
              = Inr ''No information available for this drug.'') \<and>
         (map_of body ''results'' = Some (PList (PDict first # rest)) \<and>
          (map_of first ''patient'' = None \<or>
           map_of first ''patient'' = Some (PDict patient) \<and>
           (map_of patient ''reaction'' = None \<or> map_of patient ''reaction'' = Some (PList []))) \<longrightarrow>
            fst (fetch_drug_side_effects cfg rt net drug_name)
              = Inr ''No side effects listed for this drug.'')"
proof (intro conjI impI)
  assume "map_of body ''results'' = None \<or> map_of body ''results'' = Some (PList [])"
  then have "describe_events (PDict body) = Inr ''No information available for this drug.''"
    by (rule describe_no_results)
  then show "fst (fetch_drug_side_effects cfg rt net drug_name)
      = Inr ''No information available for this drug.''"
    by (simp add: fetch_drug_ok [where net = net and d = drug_name, OF assms])
next
  assume "map_of body ''results'' = Some (PList (PDict first # rest)) \<and>
          (map_of first ''patient'' = None \<or>
           map_of first ''patient'' = Some (PDict patient) \<and>
           (map_of patient ''reaction'' = None \<or> map_of patient ''reaction'' = Some (PList [])))"
  then have "describe_events (PDict body) = Inr ''No side effects listed for this drug.''"
    using describe_no_reactions [of body first rest patient] by blast
  then show "fst (fetch_drug_side_effects cfg rt net drug_name)
      = Inr ''No side effects listed for this drug.''"
    by (simp add: fetch_drug_ok [where net = net and d = drug_name, OF assms])
qed

theorem nothing_to_report_witness:
  "answering (PDict []) (fda_request ''aspirin'') = Inr (json_response 200 (PDict [])) \<and>
   status_code (json_response 200 (PDict [])) = 200 \<and>
   json_body (json_response 200 (PDict [])) = Inr (PDict []) \<and>
   map_of ([] :: (string \<times> py_value) list) ''results'' = None \<and>
   fst (fetch_drug_side_effects no_keys plain_runtime (answering (PDict [])) ''aspirin'')
     = Inr ''No information available for this drug.'' \<and>
   map_of [(''results'', PList [])] ''results'' = Some (PList []) \<and>
   fst (fetch_drug_side_effects no_keys plain_runtime
          (answering (PDict [(''results'', PList [])])) ''aspirin'')
     = Inr ''No information available for this drug.'' \<and>
   map_of [(''results'', PList [PDict []])] ''results'' = Some (PList (PDict [] # [])) \<and>
   map_of ([] :: (string \<times> py_value) list) ''patient'' = None \<and>
   fst (fetch_drug_side_effects no_keys plain_runtime
          (answering (PDict [(''results'', PList [PDict []])])) ''aspirin'')
     = Inr ''No side effects listed for this drug.'' \<and>
   map_of (event_body []) ''results''
     = Some (PList (PDict [(''patient'', PDict [(''reaction'', PList [])])] # [])) \<and>
   map_of [(''patient'', PDict [(''reaction'', PList [])])] ''patient''
     = Some (PDict [(''reaction'', PList [])]) \<and>
   map_of [(''reaction'', PList [])] ''reaction'' = Some (PList []) \<and>
   fst (fetch_drug_side_effects no_keys plain_runtime (answering (PDict (event_body []))) ''aspirin'')
     = Inr ''No side effects listed for this drug.''"
proof -
  have r: "\<And>v. answering v (fda_request ''aspirin'') = Inr (json_response 200 v)"
    by (simp add: answering_def)
  have a: "fst (fetch_drug_side_effects no_keys plain_runtime (answering (PDict [])) ''aspirin'')
     = Inr ''No information available for this drug.''"
    using nothing_to_report [where net = "answering (PDict [])" and drug_name = "''aspirin''"
        and r = "json_response 200 (PDict [])" and body = "[]", OF r]
    by simp
  have b: "fst (fetch_drug_side_effects no_keys plain_runtime
          (answering (PDict [(''results'', PList [])])) ''aspirin'')
     = Inr ''No information available for this drug.''"
    using nothing_to_report [where net = "answering (PDict [(''results'', PList [])])"
        and drug_name = "''aspirin''" and r = "json_response 200 (PDict [(''results'', PList [])])"
        and body = "[(''results'', PList [])]", OF r]
    by simp
  have c: "fst (fetch_drug_side_effects no_keys plain_runtime
          (answering (PDict [(''results'', PList [PDict []])])) ''aspirin'')
     = Inr ''No side effects listed for this drug.''"
    using nothing_to_report [where net = "answering (PDict [(''results'', PList [PDict []])])"
        and drug_name = "''aspirin''"
        and r = "json_response 200 (PDict [(''results'', PList [PDict []])])"
        and body = "[(''results'', PList [PDict []])]" and first = "[]" and rest = "[]", OF r]
    by simp
  have d: "fst (fetch_drug_side_effects no_keys plain_runtime (answering (PDict (event_body []))) ''aspirin'')
     = Inr ''No side effects listed for this drug.''"
    using nothing_to_report [where net = "answering (PDict (event_body []))"
        and drug_name = "''aspirin''" and r = "json_response 200 (PDict (event_body []))"
        and body = "event_body []" and first = "[(''patient'', PDict [(''reaction'', PList [])])]"
        and rest = "[]" and patient = "[(''reaction'', PList [])]", OF r]
    by (simp add: event_body_def)
  show ?thesis
    using a b c d by (simp add: r event_body_def)
qed

text \<open>
  Claim C7. For a successful response whose first result has a non-empty reaction list
  (a list of objects whose description, when present, is text), the function returns the
  \<open>", "\<close>-join of one description per reaction entry, in order; an entry without a
  description field contributes \<open>No description\<close> and is not left out.
\<close>

theorem reactions_described:
  assumes "net (fda_request drug_name) = Inr r" "status_code r = 200"
    "json_body r = Inr (PDict body)"
    "map_of body ''results'' = Some (PList (PDict first # rest))"
    "map_of first ''patient'' = Some (PDict patient)"
    "map_of patient ''reaction'' = Some (PList (map PDict reactions))" "reactions \<noteq> []"
    "\<forall>fs \<in> set reactions. is_reaction fs"
  shows "fst (fetch_drug_side_effects cfg rt net drug_name)
           = Inr (join '', '' (map spec_description reactions)) \<and>
         length (map spec_description reactions) = length reactions \<and>
         (\<forall>fs \<in> set reactions. map_of fs ''reactionmeddrapt'' = None \<longrightarrow>
            spec_description fs = ''No description'')"
proof (intro conjI ballI impI)
  show "fst (fetch_drug_side_effects cfg rt net drug_name)
      = Inr (join '', '' (map spec_description reactions))"
    by (simp add: fetch_drug_ok [where net = net and d = drug_name, OF assms(1-3)]
          describe_some_reactions [OF assms(4-8)])
qed (simp_all add: spec_description_def)

theorem reactions_described_witness:
  "answering (PDict (event_body (map PDict sample_reactions))) (fda_request ''aspirin'')
     = Inr (json_response 200 (PDict (event_body (map PDict sample_reactions)))) \<and>
   status_code (json_response 200 (PDict (event_body (map PDict sample_reactions)))) = 200 \<and>
   json_body (json_response 200 (PDict (event_body (map PDict sample_reactions))))
     = Inr (PDict (event_body (map PDict sample_reactions))) \<and>
   map_of (event_body (map PDict sample_reactions)) ''results''
     = Some (PList (PDict [(''patient'', PDict [(''reaction'', PList (map PDict sample_reactions))])] # [])) \<and>
   map_of [(''patient'', PDict [(''reaction'', PList (map PDict sample_reactions))])] ''patient''
     = Some (PDict [(''reaction'', PList (map PDict sample_reactions))]) \<and>
   map_of [(''reaction'', PList (map PDict sample_reactions))] ''reaction''
     = Some (PList (map PDict sample_reactions)) \<and>
   sample_reactions \<noteq> [] \<and>
   list_all is_reaction sample_reactions \<and>
   fst (fetch_drug_side_effects no_keys plain_runtime
          (answering (PDict (event_body (map PDict sample_reactions)))) ''aspirin'')
     = Inr ''NAUSEA, No description, RASH'' \<and>
   length (map spec_description sample_reactions) = 3 \<and>
   [] \<in> set sample_reactions \<and>
   map_of ([] :: (string \<times> py_value) list) ''reactionmeddrapt'' = None \<and>
   spec_description [] = ''No description''"
proof -
  let ?body = "event_body (map PDict sample_reactions)"
  have r: "answering (PDict ?body) (fda_request ''aspirin'') = Inr (json_response 200 (PDict ?body))"
    by (simp add: answering_def)
  have ok: "\<forall>fs \<in> set sample_reactions. is_reaction fs"
    and ne: "sample_reactions \<noteq> []"
    by (simp_all add: sample_reactions_def is_reaction_def)
  have texts: "map spec_description sample_reactions = [''NAUSEA'', ''No description'', ''RASH'']"
    by (simp add: sample_reactions_def spec_description_def)
  note t = reactions_described [where net = "answering (PDict ?body)" and drug_name = "''aspirin''"
      and r = "json_response 200 (PDict ?body)" and body = ?body
      and first = "[(''patient'', PDict [(''reaction'', PList (map PDict sample_reactions))])]"
      and rest = "[]" and patient = "[(''reaction'', PList (map PDict sample_reactions))]"
      and reactions = sample_reactions and cfg = no_keys and rt = plain_runtime, OF r _ _ _ _ _ ne ok]
  have t': "fst (fetch_drug_side_effects no_keys plain_runtime (answering (PDict ?body)) ''aspirin'')
           = Inr (join '', '' (map spec_description sample_reactions)) \<and>
         length (map spec_description sample_reactions) = length sample_reactions \<and>
         (\<forall>fs \<in> set sample_reactions. map_of fs ''reactionmeddrapt'' = None \<longrightarrow>
            spec_description fs = ''No description'')"
    by (rule t) (simp_all add: event_body_def)
  then have res: "fst (fetch_drug_side_effects no_keys plain_runtime (answering (PDict ?body)) ''aspirin'')
      = Inr ''NAUSEA, No description, RASH''"
    by (simp add: texts)
  have second: "[] \<in> set sample_reactions"
    by (simp add: sample_reactions_def)
  with t' have empty: "spec_description [] = ''No description''"
    by auto
  show ?thesis
    using res empty ok ne
    by (simp add: answering_def second texts event_body_def list_all_iff)
qed

section \<open>Outbound requests\<close>

text \<open>
  Claim C8. Every invocation of the literature lookup first issues the search request.
  That request sends \<open>retmax=5\<close> exactly once, and it sends an \<open>api_key\<close> parameter
  exactly when the literature key is configured: an unset key is passed as \<open>None\<close>,
  which the HTTP client leaves out. Every invocation of the adverse-event lookup issues
  exactly one request, without a \<open>params\<close> dict, whose URL is the event endpoint with
  the drug name put in as it is and \<open>&limit=1\<close> at the end; for a drug name without
  \<open>&\<close> and \<open>#\<close> the request's query parameters are exactly \<open>search\<close> and
  \<open>limit=1\<close>.
\<close>

theorem outbound_requests:
  "(\<exists>rest. snd (fetch_pubmed_articles cfg rt net search_term)
       = search_request cfg search_term # rest) \<and>
   url (search_request cfg search_term)
     = ''https://eutils.ncbi.nlm.nih.gov/entrez/eutils/esearch.fcgi'' \<and>
   outbound_query (search_request cfg search_term)
     = [(''db'', ''pubmed''), (''term'', search_term), (''retmax'', ''5''), (''retmode'', ''json'')]
       @ (case PUBMED_API_KEY cfg of None \<Rightarrow> [] | Some k \<Rightarrow> [(''api_key'', k)]) \<and>
   snd (fetch_drug_side_effects cfg rt net drug_name) = [fda_request drug_name] \<and>
   url (fda_request drug_name)
     = ''https://api.fda.gov/drug/event.json?search=patient.drug.medicinalproduct:''
       @ drug_name @ ''&limit=1'' \<and>
   params (fda_request drug_name) = None \<and>
   (CHR ''&'' \<notin> set drug_name \<and> CHR ''#'' \<notin> set drug_name \<longrightarrow>
      outbound_query (fda_request drug_name)
        = [(''search'', ''patient.drug.medicinalproduct:'' @ drug_name), (''limit'', ''1'')])"
proof (intro conjI impI)
  show "\<exists>rest. snd (fetch_pubmed_articles cfg rt net search_term)
       = search_request cfg search_term # rest"
    using pubmed_try_calls [of cfg rt net search_term]
    by (auto simp: snd_fetch_pubmed)
  show "outbound_query (search_request cfg search_term)
     = [(''db'', ''pubmed''), (''term'', search_term), (''retmax'', ''5''), (''retmode'', ''json'')]
       @ (case PUBMED_API_KEY cfg of None \<Rightarrow> [] | Some k \<Rightarrow> [(''api_key'', k)])"
  proof -
    have "url_query PUBMED_API_URL = []"
      by (simp add: url_query_def PUBMED_API_URL_def)
    moreover have "str_int 5 = ''5''"
      by code_simp
    ultimately show ?thesis
      by (simp add: outbound_query_def search_request_def search_params_def query_pairs_def
            env_value_def split: option.splits)
  qed
  show "snd (fetch_drug_side_effects cfg rt net drug_name) = [fda_request drug_name]"
    by (rule snd_fetch_drug)
next
  assume "CHR ''&'' \<notin> set drug_name \<and> CHR ''#'' \<notin> set drug_name"
  then show "outbound_query (fda_request drug_name)
        = [(''search'', ''patient.drug.medicinalproduct:'' @ drug_name), (''limit'', ''1'')]"
    by (simp add: fda_outbound)
qed (simp_all add: search_request_def PUBMED_API_URL_def fda_request_def FDA_API_URL_def)

theorem outbound_requests_witness:
  "outbound_query (search_request some_keys ''diabetes symptoms'')
     = [(''db'', ''pubmed''), (''term'', ''diabetes symptoms''), (''retmax'', ''5''),
        (''retmode'', ''json''), (''api_key'', ''ncbi'')] \<and>
   snd (fetch_drug_side_effects some_keys plain_runtime (failing ''down'') ''aspirin'')
     = [\<lparr>url = ''https://api.fda.gov/drug/event.json?search=patient.drug.medicinalproduct:aspirin&limit=1'',
          params = None\<rparr>] \<and>
   CHR ''&'' \<notin> set ''aspirin'' \<and> CHR ''#'' \<notin> set ''aspirin'' \<and>
   outbound_query (fda_request ''aspirin'')
     = [(''search'', ''patient.drug.medicinalproduct:aspirin''), (''limit'', ''1'')]"
proof -
  note t = outbound_requests [of some_keys plain_runtime "failing ''down''" "''diabetes symptoms''"
      "''aspirin''"]
  have plain: "CHR ''&'' \<notin> set ''aspirin''" "CHR ''#'' \<notin> set ''aspirin''"
    by simp_all
  from t have "outbound_query (search_request some_keys ''diabetes symptoms'')
     = [(''db'', ''pubmed''), (''term'', ''diabetes symptoms''), (''retmax'', ''5''), (''retmode'', ''json'')]
       @ (case PUBMED_API_KEY some_keys of None \<Rightarrow> [] | Some k \<Rightarrow> [(''api_key'', k)])"
    by blast
  then have a: "outbound_query (search_request some_keys ''diabetes symptoms'')
     = [(''db'', ''pubmed''), (''term'', ''diabetes symptoms''), (''retmax'', ''5''),
        (''retmode'', ''json''), (''api_key'', ''ncbi'')]"
    by (simp add: some_keys_def)
  from t have "snd (fetch_drug_side_effects some_keys plain_runtime (failing ''down'') ''aspirin'')
     = [fda_request ''aspirin'']"
    and "url (fda_request ''aspirin'')
     = ''https://api.fda.gov/drug/event.json?search=patient.drug.medicinalproduct:'' @ ''aspirin'' @ ''&limit=1''"
    and "params (fda_request ''aspirin'') = None"
    by blast+
  then have b: "snd (fetch_drug_side_effects some_keys plain_runtime (failing ''down'') ''aspirin'')
     = [\<lparr>url = ''https://api.fda.gov/drug/event.json?search=patient.drug.medicinalproduct:aspirin&limit=1'',
          params = None\<rparr>]"
    by (cases "fda_request ''aspirin''") simp
  from t plain have c: "outbound_query (fda_request ''aspirin'')
     = [(''search'', ''patient.drug.medicinalproduct:'' @ ''aspirin''), (''limit'', ''1'')]"
    by blast
  have evaluated: "outbound_query (search_request some_keys ''diabetes symptoms'')
     = [(''db'', ''pubmed''), (''term'', ''diabetes symptoms''), (''retmax'', ''5''),
        (''retmode'', ''json''), (''api_key'', ''ncbi'')]"
    "outbound_query (fda_request ''aspirin'')
     = [(''search'', ''patient.drug.medicinalproduct:aspirin''), (''limit'', ''1'')]"
    by code_simp+
  show ?thesis
    using a b c evaluated by simp
qed

text \<open>
  For every invocation the statement does not hold: with the literature key unset the
  search request carries no \<open>api_key\<close> parameter; a drug name with \<open>#\<close> moves the limit
  into the fragment, which is not sent, and a drug name with \<open>&limit=5\<close> sends two
  limits.
\<close>

theorem outbound_requests_counterexample:
  "snd (fetch_pubmed_articles no_keys plain_runtime (failing ''down'') ''flu'')
     = [search_request no_keys ''flu''] \<and>
   outbound_query (search_request no_keys ''flu'')
     = [(''db'', ''pubmed''), (''term'', ''flu''), (''retmax'', ''5''), (''retmode'', ''json'')] \<and>
   map_of (outbound_query (search_request no_keys ''flu'')) ''api_key'' = None \<and>
   snd (fetch_drug_side_effects no_keys plain_runtime (failing ''down'') ''a#b'')
     = [fda_request ''a#b''] \<and>
   outbound_query (fda_request ''a#b'') = [(''search'', ''patient.drug.medicinalproduct:a'')] \<and>
   map_of (outbound_query (fda_request ''a#b'')) ''limit'' = None \<and>
   outbound_query (fda_request ''a&limit=5'')
     = [(''search'', ''patient.drug.medicinalproduct:a''), (''limit'', ''5''), (''limit'', ''1'')]"
proof -
  have search: "outbound_query (search_request no_keys ''flu'')
     = [(''db'', ''pubmed''), (''term'', ''flu''), (''retmax'', ''5''), (''retmode'', ''json'')]"
    by code_simp
  have calls: "snd (fetch_pubmed_articles no_keys plain_runtime (failing ''down'') ''flu'')
     = [search_request no_keys ''flu'']"
    by (simp add: snd_fetch_pubmed pubmed_try_search_raises [where e = "Raised ''down''"] failing_def)
  have hash: "outbound_query (fda_request ''a#b'') = [(''search'', ''patient.drug.medicinalproduct:a'')]"
    by code_simp
  have twice: "outbound_query (fda_request ''a&limit=5'')
     = [(''search'', ''patient.drug.medicinalproduct:a''), (''limit'', ''5''), (''limit'', ''1'')]"
    by code_simp
  show ?thesis
    by (simp add: search calls hash twice snd_fetch_drug)
qed




end
